theory Spec2Isabelle
  imports Main
begin

section \<open>Strings as Python uses them\<close>

text \<open>
  Strings are byte strings here; the Python operations are the ones the installer calls:
  \<^verbatim>\<open>startswith\<close>, \<^verbatim>\<open>endswith\<close>, the substring test \<^verbatim>\<open>in\<close>, \<^verbatim>\<open>lower\<close>
  (on the ASCII letters), \<^verbatim>\<open>strip\<close> (ASCII white space), \<^verbatim>\<open>splitlines\<close>
  (the ASCII line boundaries) and \<^verbatim>\<open>str\<close> of an integer or a boolean.
\<close>

definition startswith :: "string \<Rightarrow> string \<Rightarrow> bool" where
  "startswith s p = (take (length p) s = p)"

definition endswith :: "string \<Rightarrow> string \<Rightarrow> bool" where
  "endswith s p = (length p \<le> length s \<and> drop (length s - length p) s = p)"

fun contains :: "string \<Rightarrow> string \<Rightarrow> bool" where
  "contains p [] = (p = [])"
| "contains p (c # cs) = (startswith (c # cs) p \<or> contains p cs)"

definition lower_char :: "char \<Rightarrow> char" where
  "lower_char c =
     (case map_of (zip ''ABCDEFGHIJKLMNOPQRSTUVWXYZ'' ''abcdefghijklmnopqrstuvwxyz'') c of
        Some d \<Rightarrow> d
      | None \<Rightarrow> c)"

definition lower :: "string \<Rightarrow> string" where
  "lower s = map lower_char s"

definition is_space :: "char \<Rightarrow> bool" where
  "is_space c = (c \<in> set [CHR '' '', CHR 0x09, CHR 0x0A, CHR 0x0B, CHR 0x0C, CHR 0x0D,
                            CHR 0x1C, CHR 0x1D, CHR 0x1E, CHR 0x1F])"

definition strip :: "string \<Rightarrow> string" where
  "strip s = rev (dropWhile is_space (rev (dropWhile is_space s)))"

definition is_linebreak :: "char \<Rightarrow> bool" where
  "is_linebreak c = (c \<in> set [CHR 0x0A, CHR 0x0B, CHR 0x0C, CHR 0x0D, CHR 0x1C, CHR 0x1D, CHR 0x1E])"

text \<open>\<^verbatim>\<open>splitlines\<close>: the second argument is the line being read; \<^verbatim>\<open>\r\n\<close> is one boundary.\<close>

fun splitlines_acc :: "string \<Rightarrow> string \<Rightarrow> string list" where
  "splitlines_acc [] cur = (if cur = [] then [] else [cur])"
| "splitlines_acc (c # cs) cur =
     (if c = CHR 0x0D \<and> cs \<noteq> [] \<and> hd cs = CHR 0x0A then cur # splitlines_acc (tl cs) []
      else if is_linebreak c then cur # splitlines_acc cs []
      else splitlines_acc cs (cur @ [c]))"

definition splitlines :: "string \<Rightarrow> string list" where
  "splitlines s = splitlines_acc s []"

definition digit_char :: "nat \<Rightarrow> char" where
  "digit_char n = hd (drop (n mod 10) ''0123456789'')"

function str_nat :: "nat \<Rightarrow> string" where
  "str_nat n = (if n < 10 then [digit_char n] else str_nat (n div 10) @ [digit_char n])"
  by pat_completeness auto
termination
  by (relation "measure id") auto

declare str_nat.simps [simp del]

definition str_int :: "int \<Rightarrow> string" where
  "str_int i = (if i < 0 then CHR ''-'' # str_nat (nat (- i)) else str_nat (nat i))"

definition str_bool :: "bool \<Rightarrow> string" where
  "str_bool b = (if b then ''True'' else ''False'')"

text \<open>\<^verbatim>\<open>' '.join(cmd)\<close>\<close>

fun join_spaces :: "string list \<Rightarrow> string" where
  "join_spaces [] = []"
| "join_spaces [x] = x"
| "join_spaces (x # y # ys) = x @ '' '' @ join_spaces (y # ys)"

text \<open>The truth value of an optional string argument: \<^verbatim>\<open>None\<close> and \<^verbatim>\<open>""\<close> are false.\<close>

definition truthy :: "string option \<Rightarrow> bool" where
  "truthy v = (case v of None \<Rightarrow> False | Some s \<Rightarrow> s \<noteq> [])"

section \<open>Exceptions and the outside world\<close>

text \<open>
  Every exception of the installers is a subclass of \<^verbatim>\<open>Exception\<close>; the constructor carries
  the text that \<^verbatim>\<open>str(e)\<close> gives.
\<close>

datatype exn =
    ValueError string
  | KeyError string
  | OSError string
  | HTTPError string
  | RequestException string
  | JSONDecodeError string
  | CalledProcessError string
  | ImportError string

fun str_exn :: "exn \<Rightarrow> string" where
  "str_exn (ValueError m) = m"
| "str_exn (KeyError m) = m"
| "str_exn (OSError m) = m"
| "str_exn (HTTPError m) = m"
| "str_exn (RequestException m) = m"
| "str_exn (JSONDecodeError m) = m"
| "str_exn (CalledProcessError m) = m"
| "str_exn (ImportError m) = m"

text \<open>
  The latest-release record of the metadata endpoint. An asset is a dictionary from keys to
  strings; \<open>assets\<close> and \<open>zipball_url\<close> are \<open>None\<close> when the record has no such key.
\<close>

type_synonym asset = "string \<rightharpoonup> string"

record release_info =
  assets :: "asset list option"
  zipball_url :: "string option"

record response =
  status_code :: int
  reason :: string
  json_body :: "exn + release_info"
  content :: string

record proc_result =
  returncode :: int
  stdout :: string
  stderr :: string
  log_appended :: string

text \<open>One entry of \<^verbatim>\<open>os.walk\<close>: the directory, its subdirectories and its files.\<close>

type_synonym walk_entry = "string \<times> string list \<times> string list"

datatype open_mode = Read | Append | Write

text \<open>The operations on the outside world that the properties below speak about.\<close>

datatype event =
    CheckInstallDir string
  | WriteTest string
  | OpenLog open_mode
  | HttpGet string
  | PipInstallRequests
  | Copy2 string string
  | ExtractAll string
  | RunProcess "string list"

fun is_network :: "event \<Rightarrow> bool" where
  "is_network (HttpGet u) = True"
| "is_network PipInstallRequests = True"
| "is_network e = False"

fun is_open_log :: "event \<Rightarrow> bool" where
  "is_open_log (OpenLog m) = True"
| "is_open_log e = False"

text \<open>
  What the outside world answers to each operation of the Bootstrap stage. A field that is
  an \<open>exn option\<close> is the exception the operation raises, \<open>None\<close> when it succeeds.
  The log file and \<^verbatim>\<open>raux.zip\<close> are part of the state below; the other paths are answered
  here, so the scratch files of the stage are taken to be files other than the log file.
  Console output (\<^verbatim>\<open>print\<close> and the stream handler) is not modelled.
\<close>

record env =
  path_join :: "string \<Rightarrow> string \<Rightarrow> string"
  dirname :: "string \<Rightarrow> string"
  isabs :: "string \<Rightarrow> bool"
  abspath :: "string \<Rightarrow> string"
  getcwd :: string
  asctime :: string
  path_exists :: "string \<Rightarrow> bool"
  file_bytes :: "string \<Rightarrow> string"
  makedirs_err :: "string \<Rightarrow> exn option"
  log_open_err :: "nat \<Rightarrow> exn option"
  write_test_err :: "exn option"
  cwd_test_err :: "exn option"
  cwd_test_exists :: bool
  copy2_err :: "string \<Rightarrow> string \<Rightarrow> exn option"
  pip_requests_err :: "exn option"
  http_get :: "string \<Rightarrow> exn + response"
  download_write_err :: "exn option"
  extract_zip :: "string \<Rightarrow> exn + walk_entry list"
  run_process :: "string list \<Rightarrow> exn + proc_result"
  requests_importable :: bool
  pip_check_call_err :: "exn option"
  requests_importable_after :: bool
  expanduser_home :: string
  log_append_err :: "exn option"
  traceback_text :: "exn \<Rightarrow> string"

record state =
  log_content :: "string option"
  file_handler :: bool
  raux_zip :: "string option"
  trace :: "event list"

section \<open>Computations that change the state and may raise\<close>

type_synonym 'a io = "state \<Rightarrow> (exn + 'a) \<times> state"

definition ret :: "'a \<Rightarrow> 'a io" where
  "ret x s = (Inr x, s)"

definition raise :: "exn \<Rightarrow> 'a io" where
  "raise e s = (Inl e, s)"

definition bind :: "'a io \<Rightarrow> ('a \<Rightarrow> 'b io) \<Rightarrow> 'b io" where
  "bind m f s = (case m s of (Inl e, s') \<Rightarrow> (Inl e, s') | (Inr x, s') \<Rightarrow> f x s')"

definition seq :: "'a io \<Rightarrow> 'b io \<Rightarrow> 'b io" where
  "seq m n = bind m (\<lambda>_. n)"

definition try_except :: "'a io \<Rightarrow> (exn \<Rightarrow> 'a io) \<Rightarrow> 'a io" where
  "try_except m h s = (case m s of (Inl e, s') \<Rightarrow> h e s' | (Inr x, s') \<Rightarrow> (Inr x, s'))"

definition lift :: "exn + 'a \<Rightarrow> 'a io" where
  "lift r = (case r of Inl e \<Rightarrow> raise e | Inr x \<Rightarrow> ret x)"

fun do_all :: "unit io list \<Rightarrow> unit io" where
  "do_all [] = ret ()"
| "do_all (m # ms) = seq m (do_all ms)"

definition when_do :: "bool \<Rightarrow> unit io \<Rightarrow> unit io" where
  "when_do b m = (if b then m else ret ())"

definition record_event :: "event \<Rightarrow> unit io" where
  "record_event e s = (Inr (), s\<lparr>trace := trace s @ [e]\<rparr>)"

definition raise_if :: "exn option \<Rightarrow> unit io" where
  "raise_if r = (case r of None \<Rightarrow> ret () | Some e \<Rightarrow> raise e)"

definition makedirs :: "env \<Rightarrow> string \<Rightarrow> unit io" where
  "makedirs env p = raise_if (makedirs_err env p)"

definition copy2 :: "env \<Rightarrow> string \<Rightarrow> string \<Rightarrow> unit io" where
  "copy2 env src dst = seq (record_event (Copy2 src dst)) (raise_if (copy2_err env src dst))"

section \<open>Logging of the Bootstrap stage\<close>

text \<open>
  The root logger writes a record to the log file while its file handler is installed.
  \<^verbatim>\<open>logging.debug\<close> passes the level filter only with \<^verbatim>\<open>debug\<close> set; the other levels
  always pass.
\<close>

definition format_record :: "env \<Rightarrow> string \<Rightarrow> string" where
  "format_record env msg = ''['' @ asctime env @ ''] [RAUX-Installer] '' @ msg @ [CHR 0x0A]"

definition append_text :: "string \<Rightarrow> string option \<Rightarrow> string option" where
  "append_text t c = (case c of None \<Rightarrow> Some t | Some old \<Rightarrow> Some (old @ t))"

definition emit :: "env \<Rightarrow> string \<Rightarrow> unit io" where
  "emit env msg s =
     (Inr (), if file_handler s
              then s\<lparr>log_content := append_text (format_record env msg) (log_content s)\<rparr>
              else s)"

definition info :: "env \<Rightarrow> string \<Rightarrow> unit io" where
  "info env msg = emit env msg"

definition warning :: "env \<Rightarrow> string \<Rightarrow> unit io" where
  "warning env msg = emit env msg"

definition error :: "env \<Rightarrow> string \<Rightarrow> unit io" where
  "error env msg = emit env msg"

definition debug_msg :: "env \<Rightarrow> bool \<Rightarrow> string \<Rightarrow> unit io" where
  "debug_msg env dbg msg = when_do dbg (emit env msg)"

fun infos :: "env \<Rightarrow> string list \<Rightarrow> unit io" where
  "infos env [] = ret ()"
| "infos env (m # ms) = seq (info env m) (infos env ms)"

text \<open>
  Every \<^verbatim>\<open>open\<close> of the log file. \<open>log_open_err env n\<close> is what the \<open>n\<close>-th open of the
  file raises. Mode \<^verbatim>\<open>r\<close> leaves the file as it is, \<^verbatim>\<open>a\<close> creates it when it is absent,
  \<^verbatim>\<open>w\<close> creates or truncates it.
\<close>

definition open_effect :: "open_mode \<Rightarrow> string option \<Rightarrow> string option" where
  "open_effect m c = (case m of Read \<Rightarrow> c | Append \<Rightarrow> append_text [] c | Write \<Rightarrow> Some [])"

definition open_log :: "env \<Rightarrow> open_mode \<Rightarrow> unit io" where
  "open_log env m s =
     (let n = length (filter is_open_log (trace s));
          s1 = s\<lparr>trace := trace s @ [OpenLog m]\<rparr>
      in case log_open_err env n of
           Some e \<Rightarrow> (Inl e, s1)
         | None \<Rightarrow> (Inr (), s1\<lparr>log_content := open_effect m (log_content s1)\<rparr>))"

definition log_exists :: "bool io" where
  "log_exists s = (Inr (log_content s \<noteq> None), s)"

text \<open>
  \<^verbatim>\<open>DebugFileHandler.__init__\<close>: write mode is turned into append mode when the file exists;
  the file is first opened to look at it (\<^verbatim>\<open>r\<close> when it exists and the mode is not \<^verbatim>\<open>w\<close>,
  else \<^verbatim>\<open>a\<close>), then opened by \<^verbatim>\<open>logging.FileHandler\<close> in the resulting mode.
\<close>

definition debug_file_handler :: "env \<Rightarrow> open_mode \<Rightarrow> unit io" where
  "debug_file_handler env mode0 =
     bind log_exists (\<lambda>ex.
       let mode = (if ex \<and> mode0 = Write then Append else mode0) in
       seq (open_log env (if ex \<and> mode \<noteq> Write then Read else Append))
           (open_log env mode))"

definition set_file_handler :: "bool \<Rightarrow> unit io" where
  "set_file_handler b s = (Inr (), s\<lparr>file_handler := b\<rparr>)"

definition write_log_direct :: "env \<Rightarrow> string \<Rightarrow> unit io" where
  "write_log_direct env t =
     seq (open_log env Append) (\<lambda>s. (Inr (), s\<lparr>log_content := append_text t (log_content s)\<rparr>))"

section \<open>The download URL\<close>

text \<open>\<^verbatim>\<open>get_specific_version_url\<close>\<close>

definition get_specific_version_url :: "string \<Rightarrow> string" where
  "get_specific_version_url version =
     (let filename_version = (if startswith version ''v'' then drop 1 version else version)
      in ''https://github.com/aigdat/raux/releases/download/'' @ version @ ''/raux-''
           @ filename_version @ ''-setup.zip'')"

text \<open>\<^verbatim>\<open>asset[k]\<close> raises \<^verbatim>\<open>KeyError\<close> when the key is missing.\<close>

definition getitem :: "asset \<Rightarrow> string \<Rightarrow> exn + string" where
  "getitem a k =
     (case a k of None \<Rightarrow> Inl (KeyError ([CHR 0x27] @ k @ [CHR 0x27])) | Some v \<Rightarrow> Inr v)"

definition latest_release_api :: string where
  "latest_release_api = ''https://api.github.com/repos/aigdat/raux/releases/latest''"

definition default_url :: string where
  "default_url = ''https://github.com/aigdat/raux/archive/refs/heads/main.zip''"

text \<open>
  The two loops over the assets of \<^verbatim>\<open>get_latest_release_url\<close>. The result is
  \<open>Some url\<close> when the loop returns from the function and \<open>None\<close> when it runs to
  its end.
\<close>

fun windows_zip_loop :: "asset list \<Rightarrow> exn + string option" where
  "windows_zip_loop [] = Inr None"
| "windows_zip_loop (a # rest) =
     (case getitem a ''name'' of
        Inl e \<Rightarrow> Inl e
      | Inr n \<Rightarrow>
          if endswith n ''.zip'' \<and> (contains ''win'' (lower n) \<or> contains ''windows'' (lower n))
          then (case getitem a ''browser_download_url'' of
                  Inl e \<Rightarrow> Inl e
                | Inr u \<Rightarrow> Inr (Some u))
          else windows_zip_loop rest)"

fun any_zip_loop :: "asset list \<Rightarrow> exn + string option" where
  "any_zip_loop [] = Inr None"
| "any_zip_loop (a # rest) =
     (case getitem a ''name'' of
        Inl e \<Rightarrow> Inl e
      | Inr n \<Rightarrow>
          if endswith n ''.zip''
          then (case getitem a ''browser_download_url'' of
                  Inl e \<Rightarrow> Inl e
                | Inr u \<Rightarrow> Inr (Some u))
          else any_zip_loop rest)"

definition requests_get :: "env \<Rightarrow> string \<Rightarrow> response io" where
  "requests_get env url = seq (record_event (HttpGet url)) (lift (http_get env url))"

definition use_default_url :: "env \<Rightarrow> string io" where
  "use_default_url env =
     seq (warning env ''No suitable release assets found, using default URL'') (ret default_url)"

definition select_release_url :: "env \<Rightarrow> release_info \<Rightarrow> string io" where
  "select_release_url env release =
     (let asset_list = (case assets release of None \<Rightarrow> [] | Some xs \<Rightarrow> xs) in
      bind (lift (windows_zip_loop asset_list)) (\<lambda>r1.
        case r1 of
          Some u \<Rightarrow> ret u
        | None \<Rightarrow>
            bind (lift (any_zip_loop asset_list)) (\<lambda>r2.
              case r2 of
                Some u \<Rightarrow> ret u
              | None \<Rightarrow>
                  (case zipball_url release of
                     Some z \<Rightarrow> ret z
                   | None \<Rightarrow> use_default_url env))))"

definition get_latest_release_url :: "env \<Rightarrow> string io" where
  "get_latest_release_url env =
     try_except
       (bind (requests_get env latest_release_api) (\<lambda>r.
          if status_code r = 200
          then bind (lift (json_body r)) (select_release_url env)
          else use_default_url env))
       (\<lambda>e. seq (error env (''Error fetching release info: '' @ str_exn e))
                 (raise (ValueError (''Error fetching release info: '' @ str_exn e))))"

text \<open>
  The priority order in the words of the specification: the first asset that is a zip with a
  Windows marker, else the first asset that is a zip, else the source-tree archive of the
  release, else the fixed default.
\<close>

definition is_zip_asset :: "asset \<Rightarrow> bool" where
  "is_zip_asset a = (case a ''name'' of None \<Rightarrow> False | Some n \<Rightarrow> endswith n ''.zip'')"

definition is_windows_zip_asset :: "asset \<Rightarrow> bool" where
  "is_windows_zip_asset a =
     (case a ''name'' of
        None \<Rightarrow> False
      | Some n \<Rightarrow> endswith n ''.zip'' \<and> (contains ''win'' (lower n) \<or> contains ''windows'' (lower n)))"

definition priority_choice :: "release_info \<Rightarrow> string option" where
  "priority_choice release =
     (let asset_list = (case assets release of None \<Rightarrow> [] | Some xs \<Rightarrow> xs) in
      case find is_windows_zip_asset asset_list of
        Some a \<Rightarrow> a ''browser_download_url''
      | None \<Rightarrow>
          (case find is_zip_asset asset_list of
             Some a \<Rightarrow> a ''browser_download_url''
           | None \<Rightarrow>
               (case zipball_url release of
                  Some z \<Rightarrow> Some z
                | None \<Rightarrow> Some default_url)))"

definition well_formed_asset :: "asset \<Rightarrow> bool" where
  "well_formed_asset a = (a ''name'' \<noteq> None \<and> a ''browser_download_url'' \<noteq> None)"

text \<open>The filename part in the words of the specification: one leading \<^verbatim>\<open>v\<close> is dropped.\<close>

fun strip_leading_marker :: "string \<Rightarrow> string" where
  "strip_leading_marker [] = []"
| "strip_leading_marker (c # cs) = (if c = CHR ''v'' then cs else c # cs)"

section \<open>The Bootstrap stage: \<^verbatim>\<open>install_raux\<close>\<close>

record args =
  install_dir :: string
  debug :: bool
  log_file :: "string option"
  version :: "string option"
  local_release :: "string option"

definition python_version :: string where
  "python_version = ''3.11.8''"

definition python_dir :: string where
  "python_dir = ''python''"

subsection \<open>Logging set-up and parameter checks\<close>

definition default_log_file :: "env \<Rightarrow> args \<Rightarrow> string" where
  "default_log_file env a = path_join env (install_dir a) ''raux_install.log''"

definition choose_log_file :: "env \<Rightarrow> args \<Rightarrow> string io" where
  "choose_log_file env a =
     (case log_file a of
        None \<Rightarrow> ret (default_log_file env a)
      | Some lf \<Rightarrow>
          if strip lf = [] then ret (default_log_file env a)
          else seq (makedirs env (dirname env (strip lf))) (ret (strip lf)))"

definition absolute :: "env \<Rightarrow> string \<Rightarrow> string" where
  "absolute env p = (if isabs env p then p else abspath env p)"

definition mode_str :: "open_mode \<Rightarrow> string" where
  "mode_str m = (case m of Read \<Rightarrow> ''r'' | Append \<Rightarrow> ''a'' | Write \<Rightarrow> ''w'')"

definition setup_logging :: "env \<Rightarrow> args \<Rightarrow> string io" where
  "setup_logging env a =
     bind (choose_log_file env a) (\<lambda>lf0.
     let lf = absolute env lf0 in
     bind log_exists (\<lambda>append_mode.
     let log_mode = (if append_mode then Append else Write) in
     seq (do_all
       [debug_file_handler env log_mode,
        set_file_handler True,
        if append_mode
        then info env ([CHR 0x0A, CHR 0x0A] @ ''===== RAUX INSTALLER CONTINUING ====='')
        else info env ''===== RAUX INSTALLER ====='',
        info env (''Start time: '' @ asctime env),
        info env (''Current directory: '' @ getcwd env),
        info env (''Using log file: '' @ lf @ '' (in '' @ mode_str log_mode @ '' mode)''),
        when_do (truthy (version a))
          (info env (''Requested specific version: '' @ (case version a of Some v \<Rightarrow> v | None \<Rightarrow> []))),
        info env ''Verifying parameters...'',
        info env (''INSTALL_DIR set to: '' @ install_dir a),
        info env (''Using Python '' @ python_version @ '' for installation'')])
       (ret lf)))"

definition validate_install_dir :: "env \<Rightarrow> args \<Rightarrow> unit io" where
  "validate_install_dir env a =
     do_all
       [when_do (install_dir a = [])
          (seq (error env ''ERROR: Installation directory parameter is missing'')
               (raise (ValueError ''Installation directory parameter is missing''))),
        info env (''Checking if installation directory exists and is writable: '' @ install_dir a),
        record_event (CheckInstallDir (install_dir a)),
        when_do (\<not> path_exists env (install_dir a))
          (seq (error env (''ERROR: Installation directory does not exist: '' @ install_dir a))
               (raise (ValueError (''Installation directory does not exist: '' @ install_dir a)))),
        info env ''Testing write permissions in installation directory...'',
        try_except
          (seq (record_event (WriteTest (path_join env (install_dir a) ''write_test.txt'')))
               (raise_if (write_test_err env)))
          (\<lambda>e. do_all
             [error env (''ERROR: Cannot write to installation directory: '' @ install_dir a),
              error env (''Exception: '' @ str_exn e),
              raise (ValueError (''Cannot write to installation directory: '' @ install_dir a
                                   @ ''. Exception: '' @ str_exn e))])]"

subsection \<open>The steps inside the \<^verbatim>\<open>try\<close> block\<close>

definition create_test_file :: "env \<Rightarrow> unit io" where
  "create_test_file env =
     seq (info env ''Creating a simple test file...'')
       (try_except
          (seq (raise_if (cwd_test_err env))
               (when_do (\<not> cwd_test_exists env)
                  (seq (error env ''ERROR: Cannot create test file in temporary directory'')
                       (raise (ValueError ''Cannot create test file in temporary directory'')))))
          (\<lambda>e. seq (error env (''ERROR: Cannot create test file in temporary directory: '' @ str_exn e))
                    (raise (ValueError (''Cannot create test file in temporary directory: '' @ str_exn e)))))"

definition set_raux_zip :: "string \<Rightarrow> unit io" where
  "set_raux_zip b s = (Inr (), s\<lparr>raux_zip := Some b\<rparr>)"

definition raux_zip_exists :: "bool io" where
  "raux_zip_exists s = (Inr (raux_zip s \<noteq> None), s)"

definition raux_zip_size :: "nat io" where
  "raux_zip_size s =
     (case raux_zip s of None \<Rightarrow> (Inl (OSError ''raux.zip''), s) | Some b \<Rightarrow> (Inr (length b), s))"

text \<open>\<^verbatim>\<open>shutil.copy2(local_release, "raux.zip")\<close>: the archive becomes the bytes of the local file.\<close>

definition copy_local_release :: "env \<Rightarrow> string \<Rightarrow> unit io" where
  "copy_local_release env lr =
     do_all
       [info env (''Using local release file: '' @ lr),
        info env (''Local file exists check: '' @ str_bool (path_exists env lr)),
        info env (''Local file absolute path: '' @ abspath env lr),
        try_except
          (do_all
             [when_do (\<not> path_exists env lr)
                (seq (error env (''ERROR: Local release file does not exist: '' @ lr))
                     (raise (ValueError (''Local release file does not exist: '' @ lr)))),
              copy2 env lr ''raux.zip'',
              set_raux_zip (file_bytes env lr),
              info env ''Copied local release file to raux.zip'',
              bind raux_zip_exists (\<lambda>b. info env (''Destination file exists: '' @ str_bool b)),
              bind raux_zip_size (\<lambda>n. info env (''Destination file size: '' @ str_nat n @ '' bytes''))])
          (\<lambda>e. seq (error env (''ERROR: Failed to copy local release file: '' @ str_exn e))
                    (raise (ValueError (''Failed to copy local release file: '' @ str_exn e))))]"

definition raise_for_status :: "string \<Rightarrow> response \<Rightarrow> unit io" where
  "raise_for_status url r =
     (if 400 \<le> status_code r \<and> status_code r < 500
      then raise (HTTPError (str_int (status_code r) @ '' Client Error: '' @ reason r @ '' for url: '' @ url))
      else if 500 \<le> status_code r \<and> status_code r < 600
      then raise (HTTPError (str_int (status_code r) @ '' Server Error: '' @ reason r @ '' for url: '' @ url))
      else ret ())"

definition download_archive :: "env \<Rightarrow> string \<Rightarrow> unit io" where
  "download_archive env url =
     try_except
       (do_all
          [try_except
             (do_all
                [record_event PipInstallRequests,
                 raise_if (pip_requests_err env),
                 info env ''Installed requests package''])
             (\<lambda>e. seq (error env (''ERROR: Failed to install requests package: '' @ str_exn e))
                       (raise (ValueError (''Failed to install requests package: '' @ str_exn e)))),
           bind (requests_get env url) (\<lambda>r.
             do_all
               [raise_for_status url r,
                raise_if (download_write_err env),
                set_raux_zip (content r)])])
       (\<lambda>e. seq (error env (''ERROR: Failed to download RAUX zip file: '' @ str_exn e))
                 (raise (ValueError (''Failed to download RAUX zip file: '' @ str_exn e))))"

definition resolve_download_url :: "env \<Rightarrow> args \<Rightarrow> string io" where
  "resolve_download_url env a =
     (case version a of
        None \<Rightarrow> get_latest_release_url env
      | Some v \<Rightarrow> if v = [] then get_latest_release_url env else ret (get_specific_version_url v))"

definition download_release :: "env \<Rightarrow> args \<Rightarrow> unit io" where
  "download_release env a =
     bind (resolve_download_url env a) (\<lambda>download_url.
       do_all
         [info env (''Using download URL: '' @ download_url),
          info env (''Downloading from '' @ download_url),
          download_archive env download_url])"

definition obtain_archive :: "env \<Rightarrow> args \<Rightarrow> unit io" where
  "obtain_archive env a =
     do_all
       [info env ''Determining download URL...'',
        (case local_release a of
           None \<Rightarrow> download_release env a
         | Some lr \<Rightarrow> if lr = [] then download_release env a else copy_local_release env lr),
        bind raux_zip_exists (\<lambda>b.
          when_do (\<not> b)
            (seq (error env ''ERROR: Failed to download RAUX zip file'')
                 (raise (ValueError ''Failed to download RAUX zip file''))))]"

text \<open>
  \<^verbatim>\<open>extractall\<close> of \<^verbatim>\<open>raux.zip\<close> into \<^verbatim>\<open>extracted_files\<close>; the result is what
  \<^verbatim>\<open>os.walk(extract_dir)\<close> yields afterwards.
\<close>

definition extract_all :: "env \<Rightarrow> walk_entry list io" where
  "extract_all env s =
     (case raux_zip s of
        None \<Rightarrow> raise (OSError ''raux.zip'') s
      | Some b \<Rightarrow> seq (record_event (ExtractAll b)) (lift (extract_zip env b)) s)"

definition extract_archive :: "env \<Rightarrow> walk_entry list io" where
  "extract_archive env =
     seq (makedirs env (path_join env (getcwd env) ''extracted_files''))
    (seq (info env ''Extracting files...'')
       (try_except
          (extract_all env)
          (\<lambda>e. seq (error env (''ERROR: Failed to extract RAUX zip file: '' @ str_exn e))
                    (raise (ValueError (''Failed to extract RAUX zip file: '' @ str_exn e))))))"

fun find_env_example :: "env \<Rightarrow> walk_entry list \<Rightarrow> string option" where
  "find_env_example env [] = None"
| "find_env_example env ((root, dirs, files) # rest) =
     (if ''.env.example'' \<in> set files then Some (path_join env root ''.env.example'')
      else find_env_example env rest)"

definition copy_env_example :: "env \<Rightarrow> args \<Rightarrow> walk_entry list \<Rightarrow> unit io" where
  "copy_env_example env a w =
     seq (info env ''Looking for .env.example file...'')
       (case find_env_example env w of
          None \<Rightarrow> warning env ''WARNING: Could not find .env.example in the extracted files''
        | Some p \<Rightarrow>
            if p = [] then warning env ''WARNING: Could not find .env.example in the extracted files''
            else
              (let env_dest_dir = path_join env (path_join env (install_dir a) python_dir) ''Lib'';
                   env_dest_path = path_join env env_dest_dir ''.env''
               in do_all
                    [info env (''Found .env.example at: '' @ p),
                     makedirs env env_dest_dir,
                     try_except
                       (seq (copy2 env p env_dest_path)
                            (info env (''Copied .env.example to '' @ env_dest_path)))
                       (\<lambda>e. warning env (''WARNING: Failed to copy .env.example to '' @ env_dest_path
                                            @ '': '' @ str_exn e))]))"

definition walk_files :: "walk_entry list \<Rightarrow> (string \<times> string) list" where
  "walk_files w = concat (map (\<lambda>(root, dirs, files). map (Pair root) files) w)"

definition list_extracted :: "env \<Rightarrow> bool \<Rightarrow> walk_entry list \<Rightarrow> unit io" where
  "list_extracted env dbg w =
     seq (info env ''Listing extracted files for debugging:'')
         (do_all (map (\<lambda>(root, file). debug_msg env dbg (''  '' @ path_join env root file))
                      (walk_files w)))"

subsection \<open>Locating the second-stage script\<close>

fun ux_installer_loop :: "env \<Rightarrow> walk_entry list \<Rightarrow> string option" where
  "ux_installer_loop env [] = None"
| "ux_installer_loop env ((root, dirs, files) # rest) =
     (if ''install.py'' \<in> set files \<and> contains ''ux_installer'' root
      then Some (path_join env root ''install.py'')
      else ux_installer_loop env rest)"

fun any_install_loop :: "env \<Rightarrow> walk_entry list \<Rightarrow> string option" where
  "any_install_loop env [] = None"
| "any_install_loop env ((root, dirs, files) # rest) =
     (if ''install.py'' \<in> set files then Some (path_join env root ''install.py'')
      else any_install_loop env rest)"

definition find_install_script :: "env \<Rightarrow> walk_entry list \<Rightarrow> string option" where
  "find_install_script env w =
     (let install_script = ux_installer_loop env w
      in if \<not> truthy install_script then any_install_loop env w else install_script)"

definition locate_install_script :: "env \<Rightarrow> walk_entry list \<Rightarrow> string io" where
  "locate_install_script env w =
     (let install_script = find_install_script env w
      in if \<not> truthy install_script
         then seq (error env ''ERROR: Could not find install.py in extracted files'')
                  (raise (ValueError ''Could not find install.py in extracted files''))
         else (let p = (case install_script of Some p \<Rightarrow> p | None \<Rightarrow> [])
               in seq (info env (''Found install script: '' @ p)) (ret p)))"

subsection \<open>Re-creating the log handler\<close>

definition log_size :: "nat io" where
  "log_size s =
     (case log_content s of None \<Rightarrow> (Inl (OSError ''log file''), s) | Some c \<Rightarrow> (Inr (length c), s))"

definition reinit_logging :: "env \<Rightarrow> string \<Rightarrow> unit io" where
  "reinit_logging env lf =
     do_all
       [info env ''Closing log handlers to prevent file locking issues...'',
        set_file_handler False,
        bind log_exists (\<lambda>ex.
          if ex
          then bind log_size (\<lambda>n.
                 when_do (n = 0)
                   (write_log_direct env (''=== RAUX Installer Log ==='' @ [CHR 0x0A])))
          else seq (makedirs env (dirname env lf))
                   (write_log_direct env (''=== RAUX Installer Log (Recreated) ==='' @ [CHR 0x0A]))),
        debug_file_handler env Append,
        set_file_handler True,
        info env ([CHR 0x0A] @ ''===== RAUX INSTALLER CONTINUING AFTER HANDLER RESET ====='')]"

subsection \<open>The subprocess, the launcher scripts and the summary\<close>

definition installer_command :: "env \<Rightarrow> args \<Rightarrow> string \<Rightarrow> string list" where
  "installer_command env a install_script =
     [path_join env (path_join env (install_dir a) python_dir) ''python.exe'',
      install_script, ''--install-dir'', install_dir a, ''--yes'', ''--force'']
     @ (if debug a then [''--debug''] else [])"

text \<open>The subprocess may append its own lines to the log file while it runs.\<close>

definition subprocess_log :: "proc_result \<Rightarrow> unit io" where
  "subprocess_log p s =
     (Inr (), if log_appended p = [] then s
              else s\<lparr>log_content := append_text (log_appended p) (log_content s)\<rparr>)"

definition run_install_script :: "env \<Rightarrow> args \<Rightarrow> string \<Rightarrow> int io" where
  "run_install_script env a install_script =
     (let cmd = installer_command env a install_script in
      seq (info env (''Running: '' @ join_spaces cmd))
        (try_except
           (seq (record_event (RunProcess cmd))
             (bind (lift (run_process env cmd)) (\<lambda>process.
                let exit_code = returncode process in
                seq (do_all
                  [subprocess_log process,
                   when_do (stdout process \<noteq> [])
                     (seq (info env ''Installation script output:'')
                          (do_all (map (\<lambda>line. info env (''  '' @ line)) (splitlines (stdout process))))),
                   when_do (stderr process \<noteq> [])
                     (seq (warning env ''Installation script errors:'')
                          (do_all (map (\<lambda>line. warning env (''  '' @ line)) (splitlines (stderr process))))),
                   info env (''Exit code from install.py: '' @ str_int exit_code)])
                  (ret exit_code))))
           (\<lambda>e. seq (error env (''ERROR: Failed to run installation script: '' @ str_exn e))
                     (raise (ValueError (''Failed to run installation script: '' @ str_exn e))))))"

definition copy_launcher :: "env \<Rightarrow> args \<Rightarrow> string \<Rightarrow> string \<Rightarrow> unit io" where
  "copy_launcher env a src_path name =
     seq (info env (''Found '' @ name @ '' at: '' @ src_path))
       (try_except
          (seq (copy2 env src_path (path_join env (install_dir a) name))
               (info env (''Copied '' @ name @ '' to '' @ install_dir a)))
          (\<lambda>e. seq (error env (''ERROR: Failed to copy '' @ name @ '': '' @ str_exn e))
                    (raise (ValueError (''Failed to copy '' @ name @ '': '' @ str_exn e)))))"

text \<open>The loop over every file of the walk; the pair is (ps1 found, cmd found).\<close>

fun launcher_loop :: "env \<Rightarrow> args \<Rightarrow> (string \<times> string) list \<Rightarrow> bool \<times> bool \<Rightarrow> (bool \<times> bool) io" where
  "launcher_loop env a [] found = ret found"
| "launcher_loop env a ((root, file) # rest) (ps1, cmd) =
     seq (when_do (file = ''launch_raux.ps1'') (copy_launcher env a (path_join env root file) ''launch_raux.ps1''))
    (seq (when_do (file = ''launch_raux.cmd'') (copy_launcher env a (path_join env root file) ''launch_raux.cmd''))
         (launcher_loop env a rest (ps1 \<or> file = ''launch_raux.ps1'', cmd \<or> file = ''launch_raux.cmd'')))"

definition copy_from_cwd :: "env \<Rightarrow> args \<Rightarrow> string \<Rightarrow> bool \<Rightarrow> bool io" where
  "copy_from_cwd env a name found =
     (if \<not> found \<and> path_exists env name
      then try_except
             (seq (copy2 env name (path_join env (install_dir a) name))
                  (seq (info env (''Copied '' @ name @ '' from current directory to '' @ install_dir a))
                       (ret True)))
             (\<lambda>e. seq (error env (''ERROR: Failed to copy '' @ name @ '' from current directory: '' @ str_exn e))
                       (raise (ValueError (''Failed to copy '' @ name @ '' from current directory: '' @ str_exn e))))
      else ret found)"

definition copy_launcher_scripts :: "env \<Rightarrow> args \<Rightarrow> walk_entry list \<Rightarrow> (bool \<times> bool) io" where
  "copy_launcher_scripts env a w =
     seq (info env ''Copying launcher scripts to the installation directory...'')
       (bind (launcher_loop env a (walk_files w) (False, False)) (\<lambda>(ps1, cmd).
          seq (when_do (\<not> ps1) (warning env ''WARNING: Could not find launch_raux.ps1 in the extracted files''))
         (seq (when_do (\<not> cmd) (warning env ''WARNING: Could not find launch_raux.cmd in the extracted files''))
         (bind (copy_from_cwd env a ''launch_raux.ps1'' ps1) (\<lambda>ps1'.
          bind (copy_from_cwd env a ''launch_raux.cmd'' cmd) (\<lambda>cmd'.
          ret (ps1', cmd')))))))"

definition installation_summary :: "env \<Rightarrow> args \<Rightarrow> int \<Rightarrow> bool \<times> bool \<Rightarrow> int io" where
  "installation_summary env a exit_code found =
     seq (info env (''Installation completed with exit code: '' @ str_int exit_code))
    (seq (if exit_code \<noteq> 0
          then do_all
                 [error env (''Installation failed with error code: '' @ str_int exit_code),
                  error env ''Please ensure all RAUX applications are closed and try again.'',
                  error env ''If the problem persists, you may need to restart your computer.'',
                  raise (ValueError (''Installation failed with error code: '' @ str_int exit_code))]
          else infos env
                 [''Installation completed successfully.'',
                  ''You can start RAUX by running:'',
                  ''  raux'',
                  ''Or by using the desktop shortcut if created.''])
    (seq (infos env
            [''===== INSTALLATION SUMMARY ====='',
             ''Installation directory: '' @ install_dir a,
             ''Python version: '' @ python_version,
             ''Launcher scripts copied: PS1='' @ str_bool (fst found) @ '', CMD='' @ str_bool (snd found),
             ''Final exit code: '' @ str_int exit_code,
             ''End time: '' @ asctime env,
             ''==============================='',
             ''Temporary directory will not be cleaned up to prevent file-in-use errors''])
         (ret exit_code)))"

subsection \<open>The whole stage\<close>

definition try_block :: "env \<Rightarrow> args \<Rightarrow> string \<Rightarrow> int io" where
  "try_block env a lf =
     seq (create_test_file env)
    (seq (obtain_archive env a)
    (bind (extract_archive env) (\<lambda>w.
     seq (copy_env_example env a w)
    (seq (list_extracted env (debug a) w)
    (bind (locate_install_script env w) (\<lambda>install_script.
     seq (reinit_logging env lf)
    (bind (run_install_script env a install_script) (\<lambda>exit_code.
     bind (copy_launcher_scripts env a w) (\<lambda>found.
     installation_summary env a exit_code found)))))))))"

definition unexpected_error :: "env \<Rightarrow> exn \<Rightarrow> int io" where
  "unexpected_error env e =
     seq (error env (''Unexpected error during installation: '' @ str_exn e))
         (raise (ValueError (''Unexpected error during installation: '' @ str_exn e)))"

definition install_raux :: "env \<Rightarrow> args \<Rightarrow> int io" where
  "install_raux env a =
     bind (setup_logging env a) (\<lambda>lf.
     seq (validate_install_dir env a)
    (seq (infos env
            [''Starting RAUX download and installation...'',
             ''Installation directory: '' @ install_dir a,
             ''Using current directory for installation: '' @ getcwd env])
         (try_except (try_block env a lf) (unexpected_error env))))"

text \<open>
  The exit status of the command line: \<^verbatim>\<open>sys.exit(install_raux(...))\<close>. An exception that
  leaves \<^verbatim>\<open>install_raux\<close> is not caught, and the interpreter then ends with status 1.
\<close>

definition bootstrap_exit_status :: "env \<Rightarrow> args \<Rightarrow> state \<Rightarrow> int" where
  "bootstrap_exit_status env a s = (case fst (install_raux env a s) of Inl e \<Rightarrow> 1 | Inr c \<Rightarrow> c)"

section \<open>The Provisioning stage: \<^verbatim>\<open>ux_installer/install.py\<close>\<close>

text \<open>The parsed command line.\<close>

record install_args =
  arg_install_dir :: string
  arg_yes :: bool
  arg_force :: bool
  arg_debug :: bool

definition product_name :: string where
  "product_name = ''RAUX''"

definition product_name_concat :: string where
  "product_name_concat = ''raux''"

definition icon_file :: string where
  "icon_file = ''raux.ico''"

text \<open>
  \<^verbatim>\<open>log(message)\<close>: the line is appended to the file at \<^verbatim>\<open>LOG_FILE_PATH\<close> when that is
  set; an exception of the write is swallowed.
\<close>

definition plog :: "env \<Rightarrow> string \<Rightarrow> string \<Rightarrow> unit io" where
  "plog env log_file_path message s =
     (let formatted_message = ''['' @ asctime env @ ''] ['' @ product_name @ ''-Installer] '' @ message
      in (Inr (),
          if log_file_path \<noteq> [] \<and> log_append_err env = None
          then s\<lparr>log_content := append_text (formatted_message @ [CHR 0x0A]) (log_content s)\<rparr>
          else s))"

fun wheel_loop :: "asset list \<Rightarrow> exn + asset option" where
  "wheel_loop [] = Inr None"
| "wheel_loop (a # rest) =
     (case getitem a ''name'' of
        Inl e \<Rightarrow> Inl e
      | Inr n \<Rightarrow> if endswith n ''.whl'' then Inr (Some a) else wheel_loop rest)"

definition download_latest_wheel :: "env \<Rightarrow> string \<Rightarrow> string \<Rightarrow> string option io" where
  "download_latest_wheel env log_path output_folder =
     seq (do_all
            [plog env log_path ''------------------'',
             plog env log_path ''- Download Wheel -'',
             plog env log_path ''------------------''])
       (try_except
          (seq (plog env log_path ''Fetching latest release information...'')
          (bind (requests_get env latest_release_api) (\<lambda>r.
           seq (raise_for_status latest_release_api r)
          (bind (lift (json_body r)) (\<lambda>release.
           bind (lift (wheel_loop (case assets release of None \<Rightarrow> [] | Some xs \<Rightarrow> xs))) (\<lambda>wheel_asset.
             case wheel_asset of
               None \<Rightarrow> seq (plog env log_path ''ERROR: No wheel file found in the latest release'') (ret None)
             | Some asset \<Rightarrow>
                 bind (lift (getitem asset ''browser_download_url'')) (\<lambda>wheel_url.
                 bind (lift (getitem asset ''name'')) (\<lambda>output_filename.
                 let output_path = path_join env output_folder output_filename in
                 seq (plog env log_path (''Downloading wheel from: '' @ wheel_url))
                (seq (plog env log_path (''Saving to: '' @ output_path))
                (bind (requests_get env wheel_url) (\<lambda>r2.
                 seq (raise_for_status wheel_url r2)
                (seq (raise_if (download_write_err env))
                (seq (plog env log_path ''Wheel downloaded successfully'')
                     (ret (Some output_path)))))))))))))))
          (\<lambda>e. seq (plog env log_path (''Error downloading wheel: '' @ str_exn e)) (ret None)))"

definition install_wheel :: "env \<Rightarrow> string \<Rightarrow> string \<Rightarrow> string \<Rightarrow> bool io" where
  "install_wheel env log_path wheel_path python_path =
     seq (do_all
            [plog env log_path ''-----------------'',
             plog env log_path ''- Install Wheel -'',
             plog env log_path ''-----------------''])
       (try_except
          (seq (plog env log_path (''Installing wheel: '' @ wheel_path))
             (let cmd = [python_path, ''-m'', ''pip'', ''install'', ''--no-deps'', wheel_path] in
              seq (record_event (RunProcess cmd))
             (bind (lift (run_process env cmd)) (\<lambda>result.
                if returncode result \<noteq> 0
                then seq (plog env log_path (''ERROR: Failed to install wheel. Exit code: '' @ str_int (returncode result)))
                    (seq (plog env log_path (''Error output: '' @ stderr result))
                         (ret False))
                else seq (plog env log_path ''Wheel installed successfully'') (ret True)))))
          (\<lambda>e. seq (plog env log_path (''Error installing wheel: '' @ str_exn e)) (ret False)))"

definition powershell_script :: "string \<Rightarrow> string \<Rightarrow> string \<Rightarrow> string \<Rightarrow> string" where
  "powershell_script shortcut_path target_path working_dir icon_path =
     (let nl = [CHR 0x0A]; dq = [CHR 0x22]; ind = ''        '' in
      nl @ ind @ ''$WshShell = New-Object -comObject WScript.Shell'' @ nl
         @ ind @ ''$Shortcut = $WshShell.CreateShortcut('' @ dq @ shortcut_path @ dq @ '')'' @ nl
         @ ind @ ''$Shortcut.TargetPath = '' @ dq @ target_path @ dq @ nl
         @ ind @ ''$Shortcut.WorkingDirectory = '' @ dq @ working_dir @ dq @ nl
         @ ind @ ''$Shortcut.IconLocation = '' @ dq @ icon_path @ dq @ nl
         @ ind @ ''$Shortcut.Save()'' @ nl
         @ ind)"

text \<open>\<^verbatim>\<open>subprocess.run(cmd, check=True)\<close> raises when the exit code is not zero.\<close>

definition run_checked :: "env \<Rightarrow> string list \<Rightarrow> unit io" where
  "run_checked env cmd =
     seq (record_event (RunProcess cmd))
       (bind (lift (run_process env cmd)) (\<lambda>result.
          when_do (returncode result \<noteq> 0)
            (raise (CalledProcessError (''Command returned non-zero exit status ''
                                         @ str_int (returncode result) @ ''.'')))))"

definition create_shortcuts :: "env \<Rightarrow> string \<Rightarrow> string \<Rightarrow> unit io" where
  "create_shortcuts env log_path dir =
     seq (do_all
            [plog env log_path ''------------------'',
             plog env log_path ''- Create Shortcuts -'',
             plog env log_path ''------------------''])
       (try_except
          (let desktop = path_join env (expanduser_home env) ''Desktop'';
               shortcut_path = path_join env desktop (product_name @ ''.lnk'');
               target_path = path_join env dir ''launch_raux.cmd'';
               icon_path = path_join env dir icon_file;
               ps_script = powershell_script shortcut_path target_path dir icon_path
           in seq (run_checked env [''powershell'', ''-Command'', ps_script])
                  (plog env log_path (''Created shortcut at: '' @ shortcut_path)))
          (\<lambda>e. plog env log_path (''Error creating shortcuts: '' @ str_exn e)))"

definition main_try_block :: "env \<Rightarrow> string \<Rightarrow> string \<Rightarrow> int io" where
  "main_try_block env log_path dir =
     (let python_path = path_join env (path_join env dir ''python'') ''python.exe'' in
      if \<not> path_exists env python_path
      then seq (plog env log_path (''ERROR: Python not found at: '' @ python_path)) (ret 1)
      else
        (let temp_dir = path_join env dir ''temp'' in
         seq (makedirs env temp_dir)
        (bind (download_latest_wheel env log_path temp_dir) (\<lambda>wheel_path.
           if \<not> truthy wheel_path
           then seq (plog env log_path ''ERROR: Failed to download wheel'') (ret 1)
           else
             bind (install_wheel env log_path (case wheel_path of Some p \<Rightarrow> p | None \<Rightarrow> []) python_path) (\<lambda>ok.
               if \<not> ok
               then seq (plog env log_path ''ERROR: Failed to install wheel'') (ret 1)
               else seq (create_shortcuts env log_path dir)
                   (seq (plog env log_path ''Installation completed successfully'')
                        (ret 0)))))))"

definition main :: "env \<Rightarrow> install_args \<Rightarrow> int io" where
  "main env pa =
     (let dir = arg_install_dir pa;
          log_path = path_join env dir (product_name_concat @ ''_install.log'')
      in seq (makedirs env dir)
        (seq (do_all
                [plog env log_path ''===================='',
                 plog env log_path (product_name @ '' Installation''),
                 plog env log_path ''===================='',
                 plog env log_path (''Installation directory: '' @ dir)])
           (try_except (main_try_block env log_path dir)
              (\<lambda>e. seq (plog env log_path (''Unexpected error during installation: '' @ str_exn e))
                   (seq (plog env log_path (traceback_text env e))
                        (ret 1))))))"




section \<open>The words of the specification, and a test double of the outside world\<close>

text \<open>
  The choice of the second-stage script in the words of the specification: the first
  directory of the walk with an \<^verbatim>\<open>install.py\<close> and \<^verbatim>\<open>ux_installer\<close> in its path, else the
  first directory with an \<^verbatim>\<open>install.py\<close>.
\<close>

definition script_choice :: "env \<Rightarrow> walk_entry list \<Rightarrow> string option" where
  "script_choice env w =
     (case find (\<lambda>(root, dirs, files). ''install.py'' \<in> set files \<and> contains ''ux_installer'' root) w of
        Some (root, dirs, files) \<Rightarrow> Some (path_join env root ''install.py'')
      | None \<Rightarrow>
          (case find (\<lambda>(root, dirs, files). ''install.py'' \<in> set files) w of
             Some (root, dirs, files) \<Rightarrow> Some (path_join env root ''install.py'')
           | None \<Rightarrow> None))"

text \<open>A world in which every operation succeeds; the examples below change it field by field.\<close>

definition test_env :: env where
  "test_env =
     \<lparr>path_join = (\<lambda>a b. a @ ''/'' @ b),
      dirname = (\<lambda>p. ''logs''),
      isabs = (\<lambda>p. True),
      abspath = (\<lambda>p. ''/work/'' @ p),
      getcwd = ''/work'',
      asctime = ''2025-01-01 00:00:00'',
      path_exists = (\<lambda>p. True),
      file_bytes = (\<lambda>p. ''PK-local''),
      makedirs_err = (\<lambda>p. None),
      log_open_err = (\<lambda>n. None),
      write_test_err = None,
      cwd_test_err = None,
      cwd_test_exists = True,
      copy2_err = (\<lambda>src dst. None),
      pip_requests_err = None,
      http_get = (\<lambda>url. Inr \<lparr>status_code = 200, reason = ''OK'',
                              json_body = Inr \<lparr>assets = None, zipball_url = None\<rparr>,
                              content = ''PK-remote''\<rparr>),
      download_write_err = None,
      extract_zip = (\<lambda>b. Inr [(''/work/extracted_files'', [''raux''], []),
                             (''/work/extracted_files/raux'', [], [''install.py''])]),
      run_process = (\<lambda>cmd. Inr \<lparr>returncode = 0, stdout = [], stderr = [], log_appended = []\<rparr>),
      requests_importable = True,
      pip_check_call_err = None,
      requests_importable_after = True,
      expanduser_home = ''/home/user'',
      log_append_err = None,
      traceback_text = (\<lambda>e. ''Traceback'')\<rparr>"

definition fresh :: state where
  "fresh = \<lparr>log_content = None, file_handler = False, raux_zip = None, trace = []\<rparr>"

definition asset_of :: "string \<Rightarrow> string \<Rightarrow> asset" where
  "asset_of n u = [''name'' \<mapsto> n, ''browser_download_url'' \<mapsto> u]"

definition example_release :: release_info where
  "example_release =
     \<lparr>assets = Some [asset_of ''notes.txt'' ''https://example.org/notes.txt'',
                     asset_of ''raux-src.zip'' ''https://example.org/raux-src.zip'',
                     asset_of ''RAUX-Win64.zip'' ''https://example.org/RAUX-Win64.zip''],
      zipball_url = Some ''https://example.org/zipball''\<rparr>"

definition example_response :: response where
  "example_response = \<lparr>status_code = 200, reason = ''OK'', json_body = Inr example_release, content = []\<rparr>"

definition denied_response :: response where
  "denied_response =
     \<lparr>status_code = 403, reason = ''Forbidden'', json_body = Inl (JSONDecodeError ''Expecting value''), content = []\<rparr>"

definition example_walk :: "walk_entry list" where
  "example_walk =
     [(''/work/extracted_files'', [''raux''], [''README.md'']),
      (''/work/extracted_files/raux'', [''installer''], [''install.py'']),
      (''/work/extracted_files/raux/installer'', [''ux_installer''], []),
      (''/work/extracted_files/raux/installer/ux_installer'', [], [''install.py''])]"

section \<open>Assertions about the computations\<close>

text \<open>
  \<open>triple P m Q E\<close>: from a state with \<open>P\<close>, the computation \<open>m\<close> ends with \<open>Q\<close> when it
  returns and with \<open>E\<close> when it raises. \<open>keeps I m\<close>: \<open>m\<close> preserves \<open>I\<close> either way.
  \<open>step_invariant env allowed I\<close>: the steps that record an event of \<open>allowed\<close>, write a
  log record or switch the handler preserve \<open>I\<close>. \<open>log_open_invariant env I\<close>: the steps that
  open the log file preserve \<open>I\<close>.
\<close>

definition triple :: "(state \<Rightarrow> bool) \<Rightarrow> 'a io \<Rightarrow> ('a \<Rightarrow> state \<Rightarrow> bool) \<Rightarrow> (exn \<Rightarrow> state \<Rightarrow> bool) \<Rightarrow> bool" where
  "triple P m Q E = (\<forall>s. P s \<longrightarrow> (case m s of (Inl e, s') \<Rightarrow> E e s' | (Inr x, s') \<Rightarrow> Q x s'))"

definition keeps :: "(state \<Rightarrow> bool) \<Rightarrow> 'a io \<Rightarrow> bool" where
  "keeps I m = (\<forall>s. I s \<longrightarrow> I (snd (m s)))"

definition step_invariant :: "env \<Rightarrow> (event \<Rightarrow> bool) \<Rightarrow> (state \<Rightarrow> bool) \<Rightarrow> bool" where
  "step_invariant env allowed I =
     ((\<forall>e. allowed e \<longrightarrow> keeps I (record_event e))
      \<and> (\<forall>msg. keeps I (emit env msg))
      \<and> (\<forall>b. keeps I (set_file_handler b))
      \<and> (\<forall>p. keeps I (subprocess_log p))
      \<and> (\<forall>p msg. keeps I (plog env p msg)))"

definition log_open_invariant :: "env \<Rightarrow> (state \<Rightarrow> bool) \<Rightarrow> bool" where
  "log_open_invariant env I =
     ((\<forall>m. keeps I (debug_file_handler env m)) \<and> (\<forall>t. keeps I (write_log_direct env t)))"

section \<open>Assertions about the trace and the files\<close>

fun is_run :: "event \<Rightarrow> bool" where
  "is_run (RunProcess cmd) = True"
| "is_run e = False"

fun is_write_test :: "event \<Rightarrow> bool" where
  "is_write_test (WriteTest t) = True"
| "is_write_test e = False"



definition no_run :: "event list \<Rightarrow> bool" where
  "no_run tr = list_all (\<lambda>e. \<not> is_run e) tr"

text \<open>
  Every network operation of the trace comes after the existence check of the install
  directory \<open>d\<close> and after a write test; the two flags say whether they have been seen.
\<close>

fun validated_first :: "string \<Rightarrow> bool \<Rightarrow> bool \<Rightarrow> event list \<Rightarrow> bool" where
  "validated_first d chk wr [] = True"
| "validated_first d chk wr (e # es) =
     ((if is_network e then chk \<and> wr else True)
      \<and> validated_first d (chk \<or> e = CheckInstallDir d) (wr \<or> is_write_test e) es)"





text \<open>
  The subprocess has been run once, with the command \<open>cmd\<close>, and no other command has.
\<close>

definition ran_only :: "string list \<Rightarrow> event list \<Rightarrow> bool" where
  "ran_only cmd tr = (RunProcess cmd \<in> set tr \<and> list_all (\<lambda>e. if is_run e then e = RunProcess cmd else True) tr)"

section \<open>Further assertions and example worlds\<close>

definition total :: "'a io \<Rightarrow> bool" where
  "total m = (\<forall>s. \<exists>x. fst (m s) = Inr x)"

text \<open>The outside world lets every step of a run with a local archive succeed.\<close>

definition cooperative :: "env \<Rightarrow> args \<Rightarrow> string \<Rightarrow> walk_entry list \<Rightarrow> string \<Rightarrow> bool" where
  "cooperative env a lr w script =
     (log_file a = None \<and> log_open_err env = (\<lambda>n. None) \<and> makedirs_err env = (\<lambda>p. None)
      \<and> install_dir a \<noteq> [] \<and> path_exists env (install_dir a) \<and> write_test_err env = None
      \<and> cwd_test_err env = None \<and> cwd_test_exists env
      \<and> local_release a = Some lr \<and> lr \<noteq> [] \<and> path_exists env lr
      \<and> copy2_err env = (\<lambda>src dst. None)
      \<and> extract_zip env (file_bytes env lr) = Inr w
      \<and> find_install_script env w = Some script \<and> script \<noteq> [])"



definition ran_with :: "env \<Rightarrow> int \<Rightarrow> event list \<Rightarrow> bool" where
  "ran_with env c tr =
     (\<exists>cmd p. ran_only cmd tr \<and> run_process env cmd = Inr p \<and> returncode p = c)"

definition example_args :: args where
  "example_args = \<lparr>install_dir = ''C:/RAUX'', debug = False, log_file = None, version = None,
                    local_release = Some ''C:/dl/raux.zip''\<rparr>"

definition example_script :: string where
  "example_script = ''/work/extracted_files/raux/install.py''"

definition example_command :: "string list" where
  "example_command =
     [''C:/RAUX/python/python.exe'', ''/work/extracted_files/raux/install.py'',
      ''--install-dir'', ''C:/RAUX'', ''--yes'', ''--force'']"

definition failed_process :: proc_result where
  "failed_process = \<lparr>returncode = 2, stdout = [], stderr = ''usage: install.py'', log_appended = []\<rparr>"

definition failing_env :: env where
  "failing_env = test_env\<lparr>run_process := \<lambda>cmd. Inr failed_process\<rparr>"
















section \<open>Running a computation\<close>

lemma io_simps:
  "ret x s = (Inr x, s)" "raise e s = (Inl e, s)"
  "bind m f s = (case m s of (Inl e, s') \<Rightarrow> (Inl e, s') | (Inr x, s') \<Rightarrow> f x s')"
  "seq m n s = (case m s of (Inl e, s') \<Rightarrow> (Inl e, s') | (Inr x, s') \<Rightarrow> n s')"
  "try_except m h s = (case m s of (Inl e, s') \<Rightarrow> h e s' | (Inr x, s') \<Rightarrow> (Inr x, s'))"
  "lift r s = (case r of Inl e \<Rightarrow> (Inl e, s) | Inr x \<Rightarrow> (Inr x, s))"
  by (simp_all add: ret_def raise_def bind_def seq_def try_except_def lift_def split: sum.splits)

section \<open>Rules for the assertions\<close>

lemma keepsI: "(\<And>s. I s \<Longrightarrow> I (snd (m s))) \<Longrightarrow> keeps I m"
  by (simp add: keeps_def)

lemma keepsD: "keeps I m \<Longrightarrow> I s \<Longrightarrow> I (snd (m s))"
  by (simp add: keeps_def)

lemma keeps_ret: "keeps I (ret x)"
  by (simp add: keeps_def ret_def)

lemma keeps_raise: "keeps I (raise e)"
  by (simp add: keeps_def raise_def)

lemma keeps_lift: "keeps I (lift r)"
  by (cases r) (simp_all add: keeps_def lift_def ret_def raise_def)

lemma keeps_raise_if: "keeps I (raise_if r)"
  by (cases r) (simp_all add: keeps_def raise_if_def ret_def raise_def)

lemma keeps_makedirs: "keeps I (makedirs env p)"
  by (simp add: makedirs_def keeps_raise_if)

lemma keeps_bind: "keeps I m \<Longrightarrow> (\<And>x. keeps I (f x)) \<Longrightarrow> keeps I (bind m f)"
  unfolding keeps_def bind_def
  by (auto split: prod.splits sum.splits)

lemma keeps_seq: "keeps I m \<Longrightarrow> keeps I n \<Longrightarrow> keeps I (seq m n)"
  by (simp add: seq_def keeps_bind)

lemma keeps_try: "keeps I m \<Longrightarrow> (\<And>e. keeps I (h e)) \<Longrightarrow> keeps I (try_except m h)"
  unfolding keeps_def try_except_def
  by (auto split: prod.splits sum.splits)

lemma keeps_when: "(b \<Longrightarrow> keeps I m) \<Longrightarrow> keeps I (when_do b m)"
  by (simp add: when_do_def keeps_ret)

lemma keeps_if: "(b \<Longrightarrow> keeps I m) \<Longrightarrow> (\<not> b \<Longrightarrow> keeps I n) \<Longrightarrow> keeps I (if b then m else n)"
  by simp

lemma keeps_case_option:
  "(v = None \<Longrightarrow> keeps I m) \<Longrightarrow> (\<And>x. v = Some x \<Longrightarrow> keeps I (f x)) \<Longrightarrow> keeps I (case v of None \<Rightarrow> m | Some x \<Rightarrow> f x)"
  by (cases v) simp_all

lemma keeps_case_prod: "(\<And>x y. keeps I (f x y)) \<Longrightarrow> keeps I (case p of (x, y) \<Rightarrow> f x y)"
  by (cases p) simp

lemma keeps_do_all: "(\<And>m. m \<in> set ms \<Longrightarrow> keeps I m) \<Longrightarrow> keeps I (do_all ms)"
  by (induction ms) (simp_all add: keeps_ret keeps_seq)

lemma keeps_do_all_map: "(\<And>x. keeps I (f x)) \<Longrightarrow> keeps I (do_all (map f xs))"
  by (rule keeps_do_all) auto

lemma keeps_read:
  "keeps I log_exists" "keeps I raux_zip_exists" "keeps I raux_zip_size" "keeps I log_size"
  by (simp_all add: keeps_def log_exists_def raux_zip_exists_def raux_zip_size_def log_size_def
      split: option.splits)

lemmas keeps_intros =
  keeps_ret keeps_raise keeps_lift keeps_raise_if keeps_makedirs keeps_bind keeps_seq keeps_try
  keeps_when keeps_if keeps_case_option keeps_case_prod keeps_do_all_map keeps_read

lemma step_emit:
  assumes "step_invariant env allowed I"
  shows "keeps I (emit env msg)" "keeps I (info env msg)" "keeps I (warning env msg)"
    "keeps I (error env msg)" "keeps I (debug_msg env dbg msg)" "keeps I (infos env msgs)"
proof -
  show e: "keeps I (emit env msg)" for msg
    using assms by (simp add: step_invariant_def)
  then show i: "keeps I (info env msg)" for msg by (simp add: info_def)
  from e show "keeps I (warning env msg)" by (simp add: warning_def)
  from e show "keeps I (error env msg)" by (simp add: error_def)
  from e show "keeps I (debug_msg env dbg msg)" by (simp add: debug_msg_def keeps_when)
  show "keeps I (infos env msgs)"
    by (induction msgs) (simp_all add: keeps_ret keeps_seq i)
qed

lemma step_log:
  assumes "step_invariant env allowed I"
  shows "keeps I (set_file_handler b)" "keeps I (subprocess_log p)" "keeps I (plog env lp msg)"
  using assms by (simp_all add: step_invariant_def)

lemma step_open:
  assumes "log_open_invariant env I"
  shows "keeps I (debug_file_handler env m)" "keeps I (write_log_direct env t)"
  using assms by (simp_all add: log_open_invariant_def)

lemma step_event:
  assumes "step_invariant env allowed I" and "allowed e"
  shows "keeps I (record_event e)"
  using assms by (simp add: step_invariant_def)

lemma step_copy2:
  assumes "step_invariant env allowed I" and "allowed (Copy2 src dst)"
  shows "keeps I (copy2 env src dst)"
  unfolding copy2_def by (intro keeps_intros step_event [OF assms])

lemma step_requests_get:
  assumes "step_invariant env allowed I" and "allowed (HttpGet url)"
  shows "keeps I (requests_get env url)"
  unfolding requests_get_def by (intro keeps_intros step_event [OF assms])

lemma keeps_choose_log_file: "keeps I (choose_log_file env a)"
  unfolding choose_log_file_def by (intro keeps_intros)

lemma keeps_setup_logging:
  assumes r: "step_invariant env allowed I" and o: "log_open_invariant env I"
  shows "keeps I (setup_logging env a)"
  unfolding setup_logging_def Let_def do_all.simps
  by (intro keeps_intros keeps_choose_log_file step_emit [OF r] step_log [OF r] step_open [OF o])

lemma keeps_validate_install_dir:
  assumes r: "step_invariant env allowed I"
    and "\<And>d. allowed (CheckInstallDir d)" and "\<And>t. allowed (WriteTest t)"
  shows "keeps I (validate_install_dir env a)"
  unfolding validate_install_dir_def Let_def do_all.simps
  by (intro keeps_intros step_emit [OF r] step_event [OF r] assms)

lemma keeps_create_test_file:
  assumes r: "step_invariant env allowed I"
  shows "keeps I (create_test_file env)"
  unfolding create_test_file_def
  by (intro keeps_intros step_emit [OF r])

lemma keeps_raise_for_status: "keeps I (raise_for_status url r)"
  unfolding raise_for_status_def by (intro keeps_intros)

lemma keeps_use_default_url:
  assumes r: "step_invariant env allowed I"
  shows "keeps I (use_default_url env)"
  unfolding use_default_url_def by (intro keeps_intros step_emit [OF r])

lemma keeps_select_release_url:
  assumes r: "step_invariant env allowed I"
  shows "keeps I (select_release_url env release)"
  unfolding select_release_url_def Let_def
  by (intro keeps_intros keeps_use_default_url [OF r])

lemma keeps_get_latest_release_url:
  assumes r: "step_invariant env allowed I" and "\<And>u. allowed (HttpGet u)"
  shows "keeps I (get_latest_release_url env)"
  unfolding get_latest_release_url_def
  by (intro keeps_intros keeps_use_default_url [OF r] keeps_select_release_url [OF r]
      step_requests_get [OF r] step_emit [OF r] assms)

lemma keeps_resolve_download_url:
  assumes r: "step_invariant env allowed I" and "\<And>u. allowed (HttpGet u)"
  shows "keeps I (resolve_download_url env a)"
  unfolding resolve_download_url_def
  by (intro keeps_intros keeps_get_latest_release_url [OF r] assms)

lemma keeps_download_archive:
  assumes r: "step_invariant env allowed I" and "\<And>u. allowed (HttpGet u)"
    and "allowed PipInstallRequests" and "\<And>b. keeps I (set_raux_zip b)"
  shows "keeps I (download_archive env url)"
  unfolding download_archive_def do_all.simps
  by (intro keeps_intros keeps_raise_for_status step_requests_get [OF r] step_emit [OF r]
      step_event [OF r] assms)

lemma keeps_download_release:
  assumes r: "step_invariant env allowed I" and "\<And>u. allowed (HttpGet u)"
    and "allowed PipInstallRequests" and "\<And>b. keeps I (set_raux_zip b)"
  shows "keeps I (download_release env a)"
  unfolding download_release_def do_all.simps
  by (intro keeps_intros keeps_resolve_download_url [OF r] keeps_download_archive [OF r]
      step_emit [OF r] assms)

lemma keeps_copy_local_release:
  assumes r: "step_invariant env allowed I" and "\<And>src dst. allowed (Copy2 src dst)"
    and "\<And>b. keeps I (set_raux_zip b)"
  shows "keeps I (copy_local_release env lr)"
  unfolding copy_local_release_def do_all.simps
  by (intro keeps_intros step_copy2 [OF r] step_emit [OF r] assms)

lemma keeps_obtain_archive:
  assumes r: "step_invariant env allowed I" and "\<And>u. allowed (HttpGet u)"
    and "allowed PipInstallRequests" and "\<And>src dst. allowed (Copy2 src dst)"
    and "\<And>b. keeps I (set_raux_zip b)"
  shows "keeps I (obtain_archive env a)"
  unfolding obtain_archive_def do_all.simps
  by (intro keeps_intros keeps_download_release [OF r] keeps_copy_local_release [OF r]
      step_emit [OF r] assms)

lemma keeps_extract_archive:
  assumes r: "step_invariant env allowed I" and "keeps I (extract_all env)"
  shows "keeps I (extract_archive env)"
  unfolding extract_archive_def
  by (intro keeps_intros step_emit [OF r] assms)

lemma keeps_copy_env_example:
  assumes r: "step_invariant env allowed I" and "\<And>src dst. allowed (Copy2 src dst)"
  shows "keeps I (copy_env_example env a w)"
  unfolding copy_env_example_def Let_def do_all.simps
  by (intro keeps_intros step_copy2 [OF r] step_emit [OF r] assms)

lemma keeps_list_extracted:
  assumes r: "step_invariant env allowed I"
  shows "keeps I (list_extracted env dbg w)"
  unfolding list_extracted_def
  by (intro keeps_intros step_emit [OF r])

lemma keeps_locate_install_script:
  assumes r: "step_invariant env allowed I"
  shows "keeps I (locate_install_script env w)"
  unfolding locate_install_script_def Let_def
  by (intro keeps_intros step_emit [OF r])

lemma keeps_reinit_logging:
  assumes r: "step_invariant env allowed I" and o: "log_open_invariant env I"
  shows "keeps I (reinit_logging env lf)"
  unfolding reinit_logging_def do_all.simps
  by (intro keeps_intros step_emit [OF r] step_log [OF r] step_open [OF o])


lemma keeps_copy_launcher:
  assumes r: "step_invariant env allowed I" and "\<And>src dst. allowed (Copy2 src dst)"
  shows "keeps I (copy_launcher env a src_path name)"
  unfolding copy_launcher_def
  by (intro keeps_intros step_copy2 [OF r] step_emit [OF r] assms)

lemma keeps_launcher_loop:
  assumes r: "step_invariant env allowed I" and c: "\<And>src dst. allowed (Copy2 src dst)"
  shows "keeps I (launcher_loop env a fs found)"
proof (induction fs arbitrary: found)
  case Nil
  show ?case by (simp add: keeps_ret)
next
  case (Cons x fs)
  obtain root fname where x: "x = (root, fname)" by (cases x) auto
  obtain ps1 cmd where f: "found = (ps1, cmd)" by (cases found) auto
  show ?case
    unfolding x f launcher_loop.simps
    by (intro keeps_intros keeps_copy_launcher [OF r c] Cons.IH)
qed

lemma keeps_copy_from_cwd:
  assumes r: "step_invariant env allowed I" and "\<And>src dst. allowed (Copy2 src dst)"
  shows "keeps I (copy_from_cwd env a name found)"
  unfolding copy_from_cwd_def
  by (intro keeps_intros step_copy2 [OF r] step_emit [OF r] assms)

lemma keeps_copy_launcher_scripts:
  assumes r: "step_invariant env allowed I" and c: "\<And>src dst. allowed (Copy2 src dst)"
  shows "keeps I (copy_launcher_scripts env a w)"
  unfolding copy_launcher_scripts_def
  by (intro keeps_intros keeps_launcher_loop [OF r c] keeps_copy_from_cwd [OF r c] step_emit [OF r])

lemma keeps_installation_summary:
  assumes r: "step_invariant env allowed I"
  shows "keeps I (installation_summary env a exit_code found)"
  unfolding installation_summary_def do_all.simps
  by (intro keeps_intros step_emit [OF r])

lemma keeps_unexpected_error:
  assumes r: "step_invariant env allowed I"
  shows "keeps I (unexpected_error env e)"
  unfolding unexpected_error_def
  by (intro keeps_intros step_emit [OF r])



lemma tripleI:
  "(\<And>s. P s \<Longrightarrow> (case m s of (Inl e, s') \<Rightarrow> E e s' | (Inr x, s') \<Rightarrow> Q x s')) \<Longrightarrow> triple P m Q E"
  by (simp add: triple_def)

lemma triple_keeps: "keeps I m \<Longrightarrow> triple I m (\<lambda>_. I) (\<lambda>_. I)"
  unfolding keeps_def triple_def by (auto split: prod.splits sum.splits)

lemma triple_weaken:
  "triple P m Q E \<Longrightarrow> (\<And>s. P' s \<Longrightarrow> P s) \<Longrightarrow> (\<And>x s. Q x s \<Longrightarrow> Q' x s)
     \<Longrightarrow> (\<And>e s. E e s \<Longrightarrow> E' e s) \<Longrightarrow> triple P' m Q' E'"
  unfolding triple_def by (fastforce split: prod.splits sum.splits)

lemma triple_bind:
  "triple P m Q E \<Longrightarrow> (\<And>x. triple (Q x) (f x) R E) \<Longrightarrow> triple P (bind m f) R E"
  unfolding triple_def bind_def by (fastforce split: prod.splits sum.splits)

lemma triple_seq:
  "triple P m (\<lambda>_. Q) E \<Longrightarrow> triple Q n R E \<Longrightarrow> triple P (seq m n) R E"
  unfolding seq_def by (rule triple_bind)

lemma triple_try:
  "triple P m Q F \<Longrightarrow> (\<And>e. triple (F e) (h e) Q E) \<Longrightarrow> triple P (try_except m h) Q E"
  unfolding triple_def try_except_def by (fastforce split: prod.splits sum.splits)

lemma tripleD:
  "triple P m Q E \<Longrightarrow> P s \<Longrightarrow> (case m s of (Inl e, s') \<Rightarrow> E e s' | (Inr x, s') \<Rightarrow> Q x s')"
  by (simp add: triple_def)


text \<open>
  The outline of \<^verbatim>\<open>install_raux\<close>, with an assertion at each of its steps: \<open>P0\<close> at the
  start, \<open>Pl\<close> with the log handler, \<open>P1\<close> after the checks, \<open>P2\<close> with the archive,
  \<open>P3 w\<close> with the walk \<open>w\<close> of the extracted files, \<open>P4 w script\<close> with the second-stage
  script, \<open>Pr w script\<close> with the log handler re-created, \<open>P5 w c\<close> with the exit code \<open>c\<close> of
  the subprocess, and \<open>F\<close> where the \<^verbatim>\<open>try\<close> block raises.
\<close>

lemma install_raux_outline:
  assumes s1: "triple P0 (setup_logging env a) (\<lambda>_. Pl) E"
    and s2: "triple Pl (validate_install_dir env a) (\<lambda>_. P1) E"
    and s3: "\<And>ms. triple P1 (infos env ms) (\<lambda>_. P1) E"
    and s4: "triple P1 (create_test_file env) (\<lambda>_. P1) (\<lambda>_. F)"
    and s5: "triple P1 (obtain_archive env a) (\<lambda>_. P2) (\<lambda>_. F)"
    and s6: "triple P2 (extract_archive env) P3 (\<lambda>_. F)"
    and s7: "\<And>w. triple (P3 w) (copy_env_example env a w) (\<lambda>_. P3 w) (\<lambda>_. F)"
    and s8: "\<And>w. triple (P3 w) (list_extracted env (debug a) w) (\<lambda>_. P3 w) (\<lambda>_. F)"
    and s9: "\<And>w. triple (P3 w) (locate_install_script env w) (P4 w) (\<lambda>_. F)"
    and s10: "\<And>w script lf. triple (P4 w script) (reinit_logging env lf) (\<lambda>_. Pr w script) (\<lambda>_. F)"
    and s11: "\<And>w script. triple (Pr w script) (run_install_script env a script) (P5 w) (\<lambda>_. F)"
    and s12: "\<And>w c. triple (P5 w c) (copy_launcher_scripts env a w) (\<lambda>_. P5 w c) (\<lambda>_. F)"
    and s13: "\<And>w c found. triple (P5 w c) (installation_summary env a c found) Q (\<lambda>_. F)"
    and s14: "\<And>e. triple F (unexpected_error env e) Q E"
  shows "triple P0 (install_raux env a) Q E"
proof -
  have body: "triple P1 (try_block env a lf) Q (\<lambda>_. F)" for lf
    unfolding try_block_def
    by (intro triple_seq [OF s4] triple_seq [OF s5] triple_bind [OF s6] triple_seq [OF s7]
        triple_seq [OF s8] triple_bind [OF s9] triple_seq [OF s10] triple_bind [OF s11]
        triple_bind [OF s12] s13)
  show ?thesis
    unfolding install_raux_def
    by (intro triple_bind [OF s1] triple_seq [OF s2] triple_seq [OF s3] triple_try [OF body] s14)
qed


lemma trace_simps:
  "trace (snd (record_event e s)) = trace s @ [e]"
  "trace (snd (emit env msg s)) = trace s"
  "trace (snd (set_file_handler b s)) = trace s"
  "trace (snd (subprocess_log p s)) = trace s"
  "trace (snd (plog env lp msg s)) = trace s"
  "trace (snd (set_raux_zip z s)) = trace s"
  by (simp_all add: record_event_def emit_def set_file_handler_def subprocess_log_def plog_def
      set_raux_zip_def Let_def)

lemma trace_open_log: "trace (snd (open_log env m s)) = trace s @ [OpenLog m]"
  by (simp add: open_log_def Let_def split: option.splits)

lemma trace_debug_file_handler:
  "\<exists>evs. trace (snd (debug_file_handler env m s)) = trace s @ evs \<and> list_all is_open_log evs
         \<and> (log_content s \<noteq> None \<longrightarrow> OpenLog Write \<notin> set evs)"
  unfolding debug_file_handler_def log_exists_def
  by (cases m; cases "log_content s = None")
     (auto simp: io_simps open_log_def Let_def split: option.splits prod.splits sum.splits)

lemma trace_write_log_direct:
  "\<exists>evs. trace (snd (write_log_direct env t s)) = trace s @ evs \<and> list_all is_open_log evs
         \<and> OpenLog Write \<notin> set evs"
  unfolding write_log_direct_def
  by (auto simp: io_simps open_log_def Let_def split: option.splits prod.splits sum.splits)

lemma trace_extract_all:
  "trace (snd (extract_all env s)) = trace s @ (case raux_zip s of None \<Rightarrow> [] | Some b \<Rightarrow> [ExtractAll b])"
  unfolding extract_all_def
  by (auto simp: io_simps record_event_def split: option.splits prod.splits sum.splits)

lemma trace_step_invariant:
  assumes "\<And>tr e. T tr \<Longrightarrow> allowed e \<Longrightarrow> T (tr @ [e])"
  shows "step_invariant env allowed (\<lambda>s. T (trace s))"
  unfolding step_invariant_def keeps_def using assms by (simp add: trace_simps)

lemma trace_log_open_invariant:
  assumes "\<And>tr evs. T tr \<Longrightarrow> list_all is_open_log evs \<Longrightarrow> T (tr @ evs)"
  shows "log_open_invariant env (\<lambda>s. T (trace s))"
  unfolding log_open_invariant_def keeps_def
proof (intro conjI allI impI)
  fix m and s :: state assume "T (trace s)"
  with assms trace_debug_file_handler [of env m s]
  show "T (trace (snd (debug_file_handler env m s)))" by auto
next
  fix t and s :: state assume "T (trace s)"
  with assms trace_write_log_direct [of env t s]
  show "T (trace (snd (write_log_direct env t s)))" by auto
qed

lemma trace_keeps_zip: "keeps (\<lambda>s. T (trace s)) (set_raux_zip b)"
  by (simp add: keeps_def trace_simps)

lemma trace_keeps_extract_all:
  assumes "\<And>tr b. T tr \<Longrightarrow> T (tr @ [ExtractAll b])"
  shows "keeps (\<lambda>s. T (trace s)) (extract_all env)"
  unfolding keeps_def using assms by (auto simp: trace_extract_all split: option.splits)

lemma totalD: "total m \<Longrightarrow> \<exists>x. fst (m s) = Inr x"
  by (simp add: total_def)

lemma total_ret: "total (ret x)"
  by (simp add: total_def ret_def)

lemma total_bind: "total m \<Longrightarrow> (\<And>x. total (f x)) \<Longrightarrow> total (bind m f)"
  unfolding total_def bind_def
  by (auto split: prod.splits sum.splits) (metis fst_conv sum.distinct(1))

lemma total_seq: "total m \<Longrightarrow> total n \<Longrightarrow> total (seq m n)"
  by (simp add: seq_def total_bind)

lemma total_try: "total m \<Longrightarrow> total (try_except m h)"
  unfolding total_def try_except_def
  by (auto split: prod.splits sum.splits) (metis fst_conv sum.distinct(1))

lemma total_try_handler: "(\<And>e. total (h e)) \<Longrightarrow> total (try_except m h)"
  unfolding total_def try_except_def
  by (auto split: prod.splits sum.splits)

lemma total_when: "(b \<Longrightarrow> total m) \<Longrightarrow> total (when_do b m)"
  by (simp add: when_do_def total_ret)

lemma total_if: "(b \<Longrightarrow> total m) \<Longrightarrow> (\<not> b \<Longrightarrow> total n) \<Longrightarrow> total (if b then m else n)"
  by simp

lemma total_case_option:
  "(v = None \<Longrightarrow> total m) \<Longrightarrow> (\<And>x. v = Some x \<Longrightarrow> total (f x))
     \<Longrightarrow> total (case v of None \<Rightarrow> m | Some x \<Rightarrow> f x)"
  by (cases v) simp_all

lemma total_case_prod: "(\<And>x y. total (f x y)) \<Longrightarrow> total (case p of (x, y) \<Rightarrow> f x y)"
  by (cases p) simp

lemma total_do_all: "(\<And>m. m \<in> set ms \<Longrightarrow> total m) \<Longrightarrow> total (do_all ms)"
  by (induction ms) (simp_all add: total_ret total_seq)

lemma total_do_all_map: "(\<And>x. total (f x)) \<Longrightarrow> total (do_all (map f xs))"
  by (rule total_do_all) auto

lemma total_steps:
  "total (record_event e)" "total (emit env msg)" "total (info env msg)" "total (warning env msg)"
  "total (error env msg)" "total (debug_msg env dbg msg)" "total (set_file_handler b)"
  "total (subprocess_log p)" "total (plog env lp msg)" "total (set_raux_zip z)"
  "total log_exists" "total raux_zip_exists"
  by (simp_all add: total_def record_event_def emit_def info_def warning_def error_def
      debug_msg_def when_do_def ret_def set_file_handler_def subprocess_log_def plog_def
      set_raux_zip_def log_exists_def raux_zip_exists_def Let_def)

lemma total_infos: "total (infos env ms)"
  by (induction ms) (simp_all add: total_ret total_seq total_steps)

lemma total_raise_if: "r = None \<Longrightarrow> total (raise_if r)"
  by (simp add: raise_if_def total_ret)

lemma total_lift: "r = Inr x \<Longrightarrow> total (lift r)"
  by (simp add: lift_def total_ret)

lemma total_makedirs: "makedirs_err env p = None \<Longrightarrow> total (makedirs env p)"
  by (simp add: makedirs_def total_raise_if)

lemma total_copy2: "copy2_err env src dst = None \<Longrightarrow> total (copy2 env src dst)"
  by (simp add: copy2_def total_seq total_steps total_raise_if)

lemma total_open_log: "log_open_err env = (\<lambda>n. None) \<Longrightarrow> total (open_log env m)"
  by (simp add: total_def open_log_def Let_def)

lemma total_debug_file_handler:
  "log_open_err env = (\<lambda>n. None) \<Longrightarrow> total (debug_file_handler env m)"
  unfolding debug_file_handler_def Let_def
  by (intro total_bind total_seq total_steps total_open_log)

lemma total_write_log_direct:
  "log_open_err env = (\<lambda>n. None) \<Longrightarrow> total (write_log_direct env t)"
  unfolding write_log_direct_def
  by (intro total_seq total_open_log) (simp_all add: total_def)

lemmas total_intros =
  total_ret total_bind total_seq total_when total_if total_case_option total_case_prod
  total_do_all_map total_steps total_infos

lemma triple_total: "total m \<Longrightarrow> keeps I m \<Longrightarrow> triple I m (\<lambda>_. I) E"
  unfolding total_def keeps_def triple_def
  by (auto split: prod.splits sum.splits) (metis fst_conv sum.distinct(1))

lemma total_setup_logging:
  assumes "cooperative env a lr w script"
  shows "total (setup_logging env a)"
  using assms unfolding setup_logging_def choose_log_file_def Let_def do_all.simps cooperative_def
  by (auto intro!: total_intros total_debug_file_handler)

lemma total_validate_install_dir:
  assumes "cooperative env a lr w script"
  shows "total (validate_install_dir env a)"
  using assms unfolding validate_install_dir_def do_all.simps cooperative_def
  by (auto intro!: total_intros total_try total_raise_if)

lemma total_create_test_file:
  assumes "cooperative env a lr w script"
  shows "total (create_test_file env)"
  using assms unfolding create_test_file_def cooperative_def
  by (auto intro!: total_intros total_try total_raise_if)

lemma total_copy_env_example:
  assumes "cooperative env a lr w script"
  shows "total (copy_env_example env a w')"
  using assms unfolding copy_env_example_def Let_def do_all.simps cooperative_def
  by (auto intro!: total_intros total_try_handler total_makedirs)

lemma total_list_extracted: "total (list_extracted env dbg w)"
  unfolding list_extracted_def by (intro total_intros)

lemma total_locate_install_script:
  assumes "cooperative env a lr w script"
  shows "total (locate_install_script env w)"
  using assms unfolding locate_install_script_def Let_def cooperative_def
  by (auto intro!: total_intros simp: truthy_def)

lemma total_reinit_logging:
  assumes "cooperative env a lr w script"
  shows "total (reinit_logging env lf)"
proof -
  from assms have o: "log_open_err env = (\<lambda>n. None)" and m: "makedirs_err env = (\<lambda>p. None)"
    by (simp_all add: cooperative_def)
  have mid: "total (bind log_exists (\<lambda>ex.
          if ex
          then bind log_size (\<lambda>n.
                 when_do (n = 0)
                   (write_log_direct env (''=== RAUX Installer Log ==='' @ [CHR 0x0A])))
          else seq (makedirs env (dirname env lf))
                   (write_log_direct env (''=== RAUX Installer Log (Recreated) ==='' @ [CHR 0x0A]))))"
    unfolding total_def
  proof
    fix s
    have w: "\<exists>x. fst (write_log_direct env t s) = Inr x" for t
      using total_write_log_direct [OF o] by (simp add: total_def)
    show "\<exists>x. fst (bind log_exists (\<lambda>ex.
          if ex
          then bind log_size (\<lambda>n.
                 when_do (n = 0)
                   (write_log_direct env (''=== RAUX Installer Log ==='' @ [CHR 0x0A])))
          else seq (makedirs env (dirname env lf))
                   (write_log_direct env (''=== RAUX Installer Log (Recreated) ==='' @ [CHR 0x0A]))) s) = Inr x"
      using w m
      by (cases "log_content s")
         (auto simp: io_simps log_exists_def log_size_def when_do_def makedirs_def raise_if_def
           split: prod.splits sum.splits)
  qed
  show ?thesis
    unfolding reinit_logging_def do_all.simps
    by (intro total_seq total_steps mid total_debug_file_handler [OF o] total_ret)
qed

lemma total_copy_launcher:
  assumes "cooperative env a lr w script"
  shows "total (copy_launcher env a src name)"
  using assms unfolding copy_launcher_def cooperative_def
  by (auto intro!: total_intros total_try total_copy2)

lemma total_launcher_loop:
  assumes c: "cooperative env a lr w script"
  shows "total (launcher_loop env a fs found)"
proof (induction fs arbitrary: found)
  case Nil
  show ?case by (simp add: total_ret)
next
  case (Cons x fs)
  obtain root fname where x: "x = (root, fname)" by (cases x) auto
  obtain ps1 cmd where f: "found = (ps1, cmd)" by (cases found) auto
  show ?case
    unfolding x f launcher_loop.simps
    by (intro total_intros total_copy_launcher [OF c] Cons.IH)
qed

lemma total_copy_from_cwd:
  assumes "cooperative env a lr w script"
  shows "total (copy_from_cwd env a name found)"
  using assms unfolding copy_from_cwd_def cooperative_def
  by (auto intro!: total_intros total_try total_copy2)

lemma total_copy_launcher_scripts:
  assumes c: "cooperative env a lr w script"
  shows "total (copy_launcher_scripts env a w')"
  unfolding copy_launcher_scripts_def
  by (intro total_intros total_launcher_loop [OF c] total_copy_from_cwd [OF c])

section \<open>Properties of the download URL\<close>

text \<open>
  Claim C5. For every version string, \<^verbatim>\<open>get_specific_version_url\<close> keeps the version as
  it is in the path segment and puts the version without its leading \<^verbatim>\<open>v\<close> in the file
  name \<^verbatim>\<open>raux-<stripped>-setup.zip\<close>; for \<^verbatim>\<open>v1.2.3+extra\<close> the file name holds
  \<^verbatim>\<open>1.2.3+extra\<close>.
\<close>

theorem version_url_strips_marker:
  "get_specific_version_url v =
     ''https://github.com/aigdat/raux/releases/download/'' @ v @ ''/raux-''
       @ strip_leading_marker v @ ''-setup.zip''
   \<and> get_specific_version_url ''v1.2.3+extra'' =
     ''https://github.com/aigdat/raux/releases/download/v1.2.3+extra/raux-1.2.3+extra-setup.zip''"
  by (cases v) (simp_all add: get_specific_version_url_def startswith_def)

lemma windows_zip_loop_Some:
  "windows_zip_loop xs = Inr (Some u) \<Longrightarrow>
     \<exists>a. find is_windows_zip_asset xs = Some a \<and> a ''browser_download_url'' = Some u"
  by (induction xs) (auto simp: getitem_def is_windows_zip_asset_def split: option.splits if_splits sum.splits)

lemma windows_zip_loop_None:
  "windows_zip_loop xs = Inr None \<Longrightarrow> find is_windows_zip_asset xs = None"
  by (induction xs) (auto simp: getitem_def is_windows_zip_asset_def split: option.splits if_splits sum.splits)

lemma any_zip_loop_Some:
  "any_zip_loop xs = Inr (Some u) \<Longrightarrow>
     \<exists>a. find is_zip_asset xs = Some a \<and> a ''browser_download_url'' = Some u"
  by (induction xs) (auto simp: getitem_def is_zip_asset_def split: option.splits if_splits sum.splits)

lemma any_zip_loop_None:
  "any_zip_loop xs = Inr None \<Longrightarrow> find is_zip_asset xs = None"
  by (induction xs) (auto simp: getitem_def is_zip_asset_def split: option.splits if_splits sum.splits)

lemma windows_zip_loop_total:
  "\<forall>a\<in>set xs. well_formed_asset a \<Longrightarrow> \<exists>r. windows_zip_loop xs = Inr r"
  by (induction xs) (auto simp: getitem_def well_formed_asset_def split: option.splits)

lemma any_zip_loop_total:
  "\<forall>a\<in>set xs. well_formed_asset a \<Longrightarrow> \<exists>r. any_zip_loop xs = Inr r"
  by (induction xs) (auto simp: getitem_def well_formed_asset_def split: option.splits)

lemma use_default_url_fst: "fst (use_default_url env s) = Inr default_url"
  by (simp add: use_default_url_def warning_def emit_def io_simps)

lemma select_release_url_sound:
  "fst (select_release_url env release s) = Inr u \<Longrightarrow> priority_choice release = Some u"
  unfolding select_release_url_def priority_choice_def Let_def
  apply (cases "windows_zip_loop (case assets release of None \<Rightarrow> [] | Some xs \<Rightarrow> xs)")
   apply (simp add: io_simps)
  subgoal for r1
    apply (cases r1)
     apply (cases "any_zip_loop (case assets release of None \<Rightarrow> [] | Some xs \<Rightarrow> xs)")
      apply (simp add: io_simps)
    subgoal for r2
      apply (cases r2)
       apply (auto simp: io_simps use_default_url_fst dest!: windows_zip_loop_None any_zip_loop_None split: option.splits)[1]
      apply (auto simp: io_simps dest!: windows_zip_loop_None any_zip_loop_Some)[1]
      done
    apply (auto simp: io_simps dest!: windows_zip_loop_Some)[1]
    done
  done

lemma select_release_url_total:
  assumes "\<forall>a\<in>set (case assets release of None \<Rightarrow> [] | Some xs \<Rightarrow> xs). well_formed_asset a"
  shows "\<exists>u. fst (select_release_url env release s) = Inr u"
proof -
  let ?xs = "case assets release of None \<Rightarrow> [] | Some xs \<Rightarrow> xs"
  obtain r1 where r1: "windows_zip_loop ?xs = Inr r1"
    using windows_zip_loop_total [OF assms] by blast
  obtain r2 where r2: "any_zip_loop ?xs = Inr r2"
    using any_zip_loop_total [OF assms] by blast
  show ?thesis
    unfolding select_release_url_def Let_def
    by (simp add: r1 r2 io_simps use_default_url_fst split: option.splits)
qed

lemma latest_release_200:
  assumes "http_get env latest_release_api = Inr r" "status_code r = 200" "json_body r = Inr release"
  shows "get_latest_release_url env s =
           (case select_release_url env release (s\<lparr>trace := trace s @ [HttpGet latest_release_api]\<rparr>) of
              (Inl e, s') \<Rightarrow> (seq (error env (''Error fetching release info: '' @ str_exn e))
                 (raise (ValueError (''Error fetching release info: '' @ str_exn e)))) s'
            | (Inr u, s') \<Rightarrow> (Inr u, s'))"
  using assms
  by (simp add: get_latest_release_url_def requests_get_def record_event_def io_simps split: sum.splits prod.splits)

text \<open>
  Claim C2. When the metadata query answers with status 200 and a release record, every URL
  that \<^verbatim>\<open>get_latest_release_url\<close> returns is the one the priority order gives: the first
  zip asset with a Windows marker, else the first zip asset, else the source-tree archive of
  the release (and the fixed default when the record has none). When every asset has a name
  and a download URL, the function does return that URL.
\<close>

theorem latest_release_priority:
  assumes "http_get env latest_release_api = Inr r" and "status_code r = 200"
    and "json_body r = Inr release"
  shows "(\<forall>u. fst (get_latest_release_url env s) = Inr u \<longrightarrow> priority_choice release = Some u)
       \<and> ((\<forall>a\<in>set (case assets release of None \<Rightarrow> [] | Some xs \<Rightarrow> xs). well_formed_asset a) \<longrightarrow>
            (\<exists>u. priority_choice release = Some u \<and> fst (get_latest_release_url env s) = Inr u))"
proof -
  let ?s1 = "s\<lparr>trace := trace s @ [HttpGet latest_release_api]\<rparr>"
  have sound: "priority_choice release = Some u" if "fst (get_latest_release_url env s) = Inr u" for u
  proof -
    from that have "fst (select_release_url env release ?s1) = Inr u"
      unfolding latest_release_200 [OF assms]
      by (auto simp: io_simps error_def emit_def split: prod.splits sum.splits)
    then show ?thesis by (rule select_release_url_sound)
  qed
  have total: "\<exists>u. priority_choice release = Some u \<and> fst (get_latest_release_url env s) = Inr u"
    if wf: "\<forall>a\<in>set (case assets release of None \<Rightarrow> [] | Some xs \<Rightarrow> xs). well_formed_asset a"
  proof -
    obtain u where u: "fst (select_release_url env release ?s1) = Inr u"
      using select_release_url_total [OF wf] by blast
    then have "fst (get_latest_release_url env s) = Inr u"
      unfolding latest_release_200 [OF assms] by (auto split: prod.splits sum.splits)
    with sound show ?thesis by blast
  qed
  from sound total show ?thesis by blast
qed

theorem latest_release_priority_witness:
  "http_get (test_env\<lparr>http_get := \<lambda>url. Inr example_response\<rparr>) latest_release_api = Inr example_response
   \<and> status_code example_response = 200
   \<and> json_body example_response = Inr example_release
   \<and> list_all well_formed_asset (case assets example_release of None \<Rightarrow> [] | Some xs \<Rightarrow> xs)
   \<and> priority_choice example_release = Some ''https://example.org/RAUX-Win64.zip''
   \<and> fst (get_latest_release_url (test_env\<lparr>http_get := \<lambda>url. Inr example_response\<rparr>) fresh)
       = Inr ''https://example.org/RAUX-Win64.zip''"
proof -
  let ?env = "test_env\<lparr>http_get := \<lambda>url. Inr example_response\<rparr>"
  have h1: "http_get ?env latest_release_api = Inr example_response" by simp
  have h2: "status_code example_response = 200" by (simp add: example_response_def)
  have h3: "json_body example_response = Inr example_release" by (simp add: example_response_def)
  have wf: "\<forall>a\<in>set (case assets example_release of None \<Rightarrow> [] | Some xs \<Rightarrow> xs). well_formed_asset a"
    by (simp add: example_release_def well_formed_asset_def asset_of_def)
  have pc: "priority_choice example_release = Some ''https://example.org/RAUX-Win64.zip''"
    by code_simp
  from latest_release_priority [OF h1 h2 h3, of fresh] wf
  obtain u where u: "priority_choice example_release = Some u"
    "fst (get_latest_release_url ?env fresh) = Inr u"
    by blast
  from u pc have "fst (get_latest_release_url ?env fresh) = Inr ''https://example.org/RAUX-Win64.zip''"
    by simp
  moreover from wf
  have "list_all well_formed_asset (case assets example_release of None \<Rightarrow> [] | Some xs \<Rightarrow> xs)"
    by (simp only: list_all_iff)
  ultimately show ?thesis using h1 h2 h3 pc by blast
qed

text \<open>
  Claim C10. When the metadata query completes with a status other than 200, without raising,
  \<^verbatim>\<open>get_latest_release_url\<close> does not fail and returns the fixed fallback URL.
\<close>

theorem non_200_uses_default_url:
  assumes "http_get env latest_release_api = Inr r" and "status_code r \<noteq> 200"
  shows "fst (get_latest_release_url env s) = Inr default_url
       \<and> default_url = ''https://github.com/aigdat/raux/archive/refs/heads/main.zip''"
  using assms
  by (simp add: get_latest_release_url_def requests_get_def record_event_def io_simps
      use_default_url_def warning_def emit_def default_url_def)

theorem non_200_uses_default_url_witness:
  "http_get (test_env\<lparr>http_get := \<lambda>url. Inr denied_response\<rparr>) latest_release_api = Inr denied_response
   \<and> status_code denied_response \<noteq> 200
   \<and> fst (get_latest_release_url (test_env\<lparr>http_get := \<lambda>url. Inr denied_response\<rparr>) fresh)
       = Inr ''https://github.com/aigdat/raux/archive/refs/heads/main.zip''"
proof -
  let ?env = "test_env\<lparr>http_get := \<lambda>url. Inr denied_response\<rparr>"
  have h1: "http_get ?env latest_release_api = Inr denied_response" by simp
  have h2: "status_code denied_response \<noteq> 200" by (simp add: denied_response_def)
  from non_200_uses_default_url [OF h1 h2, of fresh] have
    "fst (get_latest_release_url ?env fresh) = Inr ''https://github.com/aigdat/raux/archive/refs/heads/main.zip''"
    by simp
  with h1 h2 show ?thesis by blast
qed

section \<open>Properties of the search for the second-stage script\<close>

lemma ux_installer_loop_find:
  "ux_installer_loop env w =
     (case find (\<lambda>(root, dirs, files). ''install.py'' \<in> set files \<and> contains ''ux_installer'' root) w of
        Some (root, dirs, files) \<Rightarrow> Some (path_join env root ''install.py'')
      | None \<Rightarrow> None)"
proof (induction w)
  case Nil
  show ?case by simp
next
  case (Cons x w)
  obtain root dirs files where x: "x = (root, dirs, files)" by (cases x) auto
  show ?case unfolding x using Cons by simp
qed

lemma any_install_loop_find:
  "any_install_loop env w =
     (case find (\<lambda>(root, dirs, files). ''install.py'' \<in> set files) w of
        Some (root, dirs, files) \<Rightarrow> Some (path_join env root ''install.py'')
      | None \<Rightarrow> None)"
proof (induction w)
  case Nil
  show ?case by simp
next
  case (Cons x w)
  obtain root dirs files where x: "x = (root, dirs, files)" by (cases x) auto
  show ?case unfolding x using Cons by simp
qed

lemma find_install_script_choice:
  assumes "\<And>root. path_join env root ''install.py'' \<noteq> []"
  shows "find_install_script env w = script_choice env w"
    and "truthy (find_install_script env w) = (script_choice env w \<noteq> None)"
  using assms
  by (auto simp: find_install_script_def script_choice_def ux_installer_loop_find
      any_install_loop_find truthy_def Let_def split: option.splits)

lemma script_choice_nonempty:
  assumes "\<And>root. path_join env root ''install.py'' \<noteq> []"
    and "script_choice env w = Some p"
  shows "p \<noteq> []"
  using assms
  by (auto simp: script_choice_def split: option.splits prod.splits)

text \<open>
  Claim C9. The second-stage script is the \<^verbatim>\<open>install.py\<close> of the first directory of the
  walk that holds one and whose path includes \<^verbatim>\<open>ux_installer\<close>; when there is no such
  directory, the \<^verbatim>\<open>install.py\<close> of the first directory that holds one; when there is
  none either, the stage raises.
\<close>

theorem install_script_preference:
  assumes "\<And>root. path_join env root ''install.py'' \<noteq> []"
  shows "fst (locate_install_script env w s) =
           (case script_choice env w of
              Some p \<Rightarrow> Inr p
            | None \<Rightarrow> Inl (ValueError ''Could not find install.py in extracted files''))"
proof (cases "script_choice env w")
  case None
  then show ?thesis
    unfolding locate_install_script_def Let_def find_install_script_choice [OF assms]
    by (simp add: io_simps error_def emit_def truthy_def)
next
  case (Some p)
  then show ?thesis
    unfolding locate_install_script_def Let_def find_install_script_choice [OF assms]
    using script_choice_nonempty [OF assms Some]
    by (simp add: io_simps info_def emit_def truthy_def)
qed

theorem install_script_preference_witness:
  "(\<forall>root. path_join test_env root ''install.py'' \<noteq> [])
   \<and> fst (locate_install_script test_env example_walk fresh)
       = Inr ''/work/extracted_files/raux/installer/ux_installer/install.py''
   \<and> fst (locate_install_script test_env (take 3 example_walk) fresh)
       = Inr ''/work/extracted_files/raux/install.py''
   \<and> fst (locate_install_script test_env (take 1 example_walk) fresh)
       = Inl (ValueError ''Could not find install.py in extracted files'')"
proof -
  have h: "path_join test_env root ''install.py'' \<noteq> []" for root
    by (simp add: test_env_def)
  have c1: "script_choice test_env example_walk
              = Some ''/work/extracted_files/raux/installer/ux_installer/install.py''"
    by code_simp
  have c2: "script_choice test_env (take 3 example_walk) = Some ''/work/extracted_files/raux/install.py''"
    by code_simp
  have c3: "script_choice test_env (take 1 example_walk) = None"
    by code_simp
  have r1: "fst (locate_install_script test_env example_walk fresh)
       = Inr ''/work/extracted_files/raux/installer/ux_installer/install.py''"
    using install_script_preference [OF h, of example_walk fresh] by (simp add: c1)
  have r2: "fst (locate_install_script test_env (take 3 example_walk) fresh)
       = Inr ''/work/extracted_files/raux/install.py''"
    using install_script_preference [OF h, of "take 3 example_walk" fresh] by (simp only: c2 option.case)
  have r3: "fst (locate_install_script test_env (take 1 example_walk) fresh)
       = Inl (ValueError ''Could not find install.py in extracted files'')"
    using install_script_preference [OF h, of "take 1 example_walk" fresh] by (simp only: c3 option.case)
  from h r1 r2 r3 show ?thesis by blast
qed

section \<open>The checks come before the network\<close>




lemma triple_keeps_raises:
  assumes "keeps I m" and "\<And>s. \<exists>e. fst (m s) = Inl e"
  shows "triple I m (\<lambda>_ _. False) (\<lambda>_. I)"
proof (rule tripleI)
  fix s assume "I s"
  with assms(1) have "I (snd (m s))" by (simp add: keeps_def)
  moreover obtain e where "fst (m s) = Inl e" using assms(2) by blast
  ultimately show "case m s of (Inl e, s') \<Rightarrow> I s' | (Inr x, s') \<Rightarrow> False"
    by (cases "m s") auto
qed



lemma validated_first_mono:
  "validated_first d chk wr tr \<Longrightarrow> (chk \<longrightarrow> chk') \<Longrightarrow> (wr \<longrightarrow> wr') \<Longrightarrow> validated_first d chk' wr' tr"
proof (induction tr arbitrary: chk wr chk' wr')
  case Nil
  show ?case by simp
next
  case (Cons e tr)
  from Cons.prems have "validated_first d (chk \<or> e = CheckInstallDir d) (wr \<or> is_write_test e) tr"
    by simp
  then have "validated_first d (chk' \<or> e = CheckInstallDir d) (wr' \<or> is_write_test e) tr"
    by (rule Cons.IH) (use Cons.prems in auto)
  with Cons.prems show ?case by auto
qed











section \<open>The log file is only appended to\<close>











lemma is_open_log_not_run: "is_open_log e \<Longrightarrow> \<not> is_run e"
  by (cases e) simp_all

lemma no_run_step: "step_invariant env (\<lambda>e. \<not> is_run e) (\<lambda>s. no_run (trace s))"
  by (rule trace_step_invariant) (simp add: no_run_def)

lemma no_run_open: "log_open_invariant env (\<lambda>s. no_run (trace s))"
  by (rule trace_log_open_invariant)
     (auto simp: no_run_def list_all_iff dest: is_open_log_not_run)

lemma no_run_extract: "keeps (\<lambda>s. no_run (trace s)) (extract_all env)"
  by (rule trace_keeps_extract_all) (simp add: no_run_def)




section \<open>A local archive needs no network\<close>




lemma zip_simps:
  "raux_zip (snd (record_event e s)) = raux_zip s"
  "raux_zip (snd (emit env msg s)) = raux_zip s"
  "raux_zip (snd (set_file_handler h s)) = raux_zip s"
  "raux_zip (snd (subprocess_log p s)) = raux_zip s"
  "raux_zip (snd (plog env lp msg s)) = raux_zip s"
  "raux_zip (snd (open_log env m s)) = raux_zip s"
  by (simp_all add: record_event_def emit_def set_file_handler_def subprocess_log_def plog_def
      open_log_def Let_def split: option.splits)






lemma triple_always_raises:
  assumes "keeps I m" and "\<And>s. \<exists>e. fst (m s) = Inl e"
  shows "triple I m Q (\<lambda>_. I)"
  by (rule triple_weaken [OF triple_keeps_raises [OF assms]]) simp_all





lemma keeps_conj: "keeps I m \<Longrightarrow> keeps I' m \<Longrightarrow> keeps (\<lambda>s. I s \<and> I' s) m"
  unfolding keeps_def by simp

lemma seen_step: "step_invariant env (\<lambda>e. True) (\<lambda>s. e0 \<in> set (trace s))"
  by (rule trace_step_invariant) simp


lemma seen_extract: "keeps (\<lambda>s. e0 \<in> set (trace s)) (extract_all env)"
  by (rule trace_keeps_extract_all) simp




section \<open>The result of the stage and the exit code of the subprocess\<close>

lemma keeps_True: "keeps (\<lambda>_. True) m"
  by (simp add: keeps_def)

lemma triple_try_total:
  "triple P m Q (\<lambda>_ _. False) \<Longrightarrow> triple P (try_except m h) Q E"
  by (rule triple_try [where F = "\<lambda>_ _. False"]) (simp_all add: triple_def)

lemma zip_step: "step_invariant env (\<lambda>e. True) (\<lambda>s. raux_zip s = z)"
  unfolding step_invariant_def keeps_def by (simp add: zip_simps)

lemma copy_local_release_total:
  assumes c: "cooperative env a lr w script"
  shows "triple (\<lambda>_. True) (copy_local_release env lr)
           (\<lambda>_ s. raux_zip s = Some (file_bytes env lr)) (\<lambda>_ _. False)"
proof -
  let ?Z = "\<lambda>s. raux_zip s = Some (file_bytes env lr)"
  from c have p: "path_exists env lr" and cp: "copy2_err env lr ''raux.zip'' = None"
    by (simp_all add: cooperative_def)
  have t: "triple (\<lambda>_. True) m (\<lambda>_ _. True) E" if "total m" for m :: "'x io" and E
    by (rule triple_total [OF that keeps_True])
  have z: "triple ?Z m (\<lambda>_. ?Z) E" if "total m" "keeps ?Z m" for m :: "'x io" and E
    by (rule triple_total [OF that])
  have size: "triple ?Z (bind raux_zip_size (\<lambda>n. info env (''Destination file size: '' @ str_nat n @ '' bytes'')))
                (\<lambda>_. ?Z) (\<lambda>_ _. False)"
    by (rule tripleI) (simp add: io_simps raux_zip_size_def info_def emit_def)
  have setz: "triple (\<lambda>_. True) (set_raux_zip (file_bytes env lr)) (\<lambda>_. ?Z) (\<lambda>_ _. False)"
    by (rule tripleI) (simp add: set_raux_zip_def)
  show ?thesis
    unfolding copy_local_release_def do_all.simps
    apply (rule triple_seq [OF t [OF total_steps(3)]])+
    apply (rule triple_seq [where Q = ?Z])
     apply (rule triple_try_total)
     apply (rule triple_seq [OF t])
      apply (simp add: p when_do_def total_ret)
     apply (rule triple_seq [OF t [OF total_copy2 [OF cp]]])
     apply (rule triple_seq [OF setz])
     apply (rule triple_seq [OF z])
       apply (rule total_steps)
      apply (rule step_emit [OF zip_step])
     apply (rule triple_seq [OF z])
       apply (intro total_intros)
      apply (intro keeps_intros step_emit [OF zip_step])
     apply (rule triple_seq [OF size])
     apply (rule z [OF total_ret keeps_ret])
    apply (rule z [OF total_ret keeps_ret])
    done
qed

lemma obtain_archive_total:
  assumes c: "cooperative env a lr w script"
  shows "triple (\<lambda>_. True) (obtain_archive env a)
           (\<lambda>_ s. raux_zip s = Some (file_bytes env lr)) (\<lambda>_ _. False)"
proof -
  let ?Z = "\<lambda>s. raux_zip s = Some (file_bytes env lr)"
  from c have l: "local_release a = Some lr" "lr \<noteq> []" by (simp_all add: cooperative_def)
  have check: "triple ?Z (bind raux_zip_exists (\<lambda>b.
          when_do (\<not> b)
            (seq (error env ''ERROR: Failed to download RAUX zip file'')
                 (raise (ValueError ''Failed to download RAUX zip file'')))))
        (\<lambda>_. ?Z) (\<lambda>_ _. False)"
    by (rule tripleI) (simp add: io_simps raux_zip_exists_def when_do_def)
  show ?thesis
    unfolding obtain_archive_def do_all.simps using l
    apply simp
    apply (rule triple_seq [OF triple_total [OF total_steps(3) keeps_True]])
    apply (rule triple_seq [OF copy_local_release_total [OF c]])
    apply (rule triple_seq [OF check])
    apply (rule triple_total [OF total_ret keeps_ret])
    done
qed

lemma extract_archive_total:
  assumes c: "cooperative env a lr w script"
  shows "triple (\<lambda>s. raux_zip s = Some (file_bytes env lr)) (extract_archive env)
           (\<lambda>w' s. w' = w) (\<lambda>_ _. False)"
proof (rule tripleI)
  fix s :: state assume z: "raux_zip s = Some (file_bytes env lr)"
  from c have m: "makedirs_err env = (\<lambda>p. None)"
    and x: "extract_zip env (file_bytes env lr) = Inr w"
    by (simp_all add: cooperative_def)
  have "fst (extract_archive env s) = Inr w"
    unfolding extract_archive_def extract_all_def
    by (simp add: io_simps makedirs_def raise_if_def record_event_def info_def emit_def m x z)
  then show "case extract_archive env s of (Inl e, s') \<Rightarrow> False | (Inr w', s') \<Rightarrow> w' = w"
    by (cases "extract_archive env s") auto
qed

lemma locate_install_script_total:
  assumes c: "cooperative env a lr w script"
  shows "triple (\<lambda>s. True) (locate_install_script env w) (\<lambda>sc s. sc = script) (\<lambda>_ _. False)"
proof (rule tripleI)
  fix s :: state
  from c have f: "find_install_script env w = Some script" "script \<noteq> []"
    by (simp_all add: cooperative_def)
  have "fst (locate_install_script env w s) = Inr script"
    unfolding locate_install_script_def Let_def
    by (simp add: f truthy_def io_simps info_def emit_def)
  then show "case locate_install_script env w s of (Inl e, s') \<Rightarrow> False | (Inr sc, s') \<Rightarrow> sc = script"
    by (cases "locate_install_script env w s") auto
qed

lemma run_install_script_Inr:
  assumes rp: "run_process env (installer_command env a script) = Inr p"
    and pre: "T (trace s @ [RunProcess (installer_command env a script)])"
  shows "fst (run_install_script env a script s) = Inr (returncode p)
       \<and> T (trace (snd (run_install_script env a script s)))"
proof -
  let ?cmd = "installer_command env a script"
  let ?r = "run_install_script env a script s"
  let ?S = "\<lambda>s. T (trace s)"
  have r: "step_invariant env (\<lambda>e. False) ?S"
    by (rule trace_step_invariant) simp
  have k: "keeps ?S
     (seq (do_all
            [subprocess_log p,
             when_do (stdout p \<noteq> [])
               (seq (info env ''Installation script output:'')
                    (do_all (map (\<lambda>line. info env (''  '' @ line)) (splitlines (stdout p))))),
             when_do (stderr p \<noteq> [])
               (seq (warning env ''Installation script errors:'')
                    (do_all (map (\<lambda>line. warning env (''  '' @ line)) (splitlines (stderr p))))),
             info env (''Exit code from install.py: '' @ str_int (returncode p))])
          (ret (returncode p)))" (is "keeps _ ?m")
    unfolding do_all.simps
    by (intro keeps_intros step_emit [OF r] step_log [OF r])
  have t: "total ?m"
    unfolding do_all.simps by (intro total_intros)
  have v: "fst (?m s') = Inr (returncode p)" for s'
    using totalD [OF t, of s']
    by (auto simp: io_simps split: prod.splits sum.splits)
  let ?s1 = "snd (record_event (RunProcess ?cmd) (snd (info env (''Running: '' @ join_spaces ?cmd) s)))"
  have s1: "?S ?s1" using pre by (simp add: record_event_def info_def emit_def)
  have eq: "?r = ?m ?s1"
    unfolding run_install_script_def Let_def
    using v [of ?s1]
    by (cases "?m ?s1") (simp add: io_simps rp info_def emit_def record_event_def)
  from k s1 have "?S (snd (?m ?s1))" by (simp add: keeps_def)
  with v [of ?s1] eq show ?thesis by simp
qed

lemma run_install_script_Inl:
  assumes "run_process env (installer_command env a script) = Inl e"
  shows "\<exists>x. fst (run_install_script env a script s) = Inl x"
  unfolding run_install_script_def Let_def
  by (simp add: io_simps assms info_def error_def emit_def record_event_def)

lemma run_install_script_result:
  assumes "run_process env (installer_command env a script) = Inr p"
  shows "triple (\<lambda>s. True) (run_install_script env a script)
           (\<lambda>c s. c = returncode p \<and> RunProcess (installer_command env a script) \<in> set (trace s))
           (\<lambda>_ _. False)"
proof (rule tripleI)
  fix s :: state
  let ?cmd = "installer_command env a script"
  from run_install_script_Inr [OF assms, where T = "\<lambda>tr. RunProcess ?cmd \<in> set tr" and s = s]
  show "case run_install_script env a script s of (Inl e, s') \<Rightarrow> False
        | (Inr c, s') \<Rightarrow> c = returncode p \<and> RunProcess ?cmd \<in> set (trace s')"
    by (cases "run_install_script env a script s") auto
qed

lemma installation_summary_result:
  "triple I (installation_summary env a c found)
     (\<lambda>r s. r = 0 \<and> c = 0) (\<lambda>e s. c \<noteq> 0 \<and> (\<exists>m. e = ValueError m))"
proof (rule tripleI)
  fix s :: state
  have t: "total (infos env ms)" for ms by (rule total_infos)
  show "case installation_summary env a c found s of
          (Inl e, s') \<Rightarrow> c \<noteq> 0 \<and> (\<exists>m. e = ValueError m)
        | (Inr r, s') \<Rightarrow> r = 0 \<and> c = 0"
  proof (cases "c = 0")
    case True
    have "total (installation_summary env a c found)"
      unfolding installation_summary_def using True
      by (auto intro!: total_intros)
    then obtain x where "fst (installation_summary env a c found s) = Inr x"
      by (auto simp: total_def)
    moreover have "fst (installation_summary env a c found s) = Inr x \<Longrightarrow> x = c"
      unfolding installation_summary_def
      by (auto simp: io_simps split: prod.splits sum.splits if_splits)
    ultimately show ?thesis using True
      by (cases "installation_summary env a c found s") auto
  next
    case False
    then show ?thesis
      unfolding installation_summary_def
      by (simp add: io_simps info_def error_def emit_def)
  qed
qed

lemma keeps_const: "keeps (\<lambda>_. c) m"
  by (simp add: keeps_def)

lemma triple_assume: "(c \<Longrightarrow> triple (\<lambda>_. True) m Q E) \<Longrightarrow> triple (\<lambda>_. c) m Q E"
  by (cases c) (simp_all add: triple_def)

lemma triple_conj_keeps:
  "triple I m Q E \<Longrightarrow> keeps K m
     \<Longrightarrow> triple (\<lambda>s. I s \<and> K s) m (\<lambda>r s. Q r s \<and> K s) (\<lambda>e s. E e s \<and> K s)"
  unfolding triple_def keeps_def
  by (auto split: prod.splits sum.splits)

lemma triple_assume_conj: "(c \<Longrightarrow> triple P m Q E) \<Longrightarrow> triple (\<lambda>s. c \<and> P s) m Q E"
  by (cases c) (simp_all add: triple_def)

lemma unexpected_error_raises:
  "fst (unexpected_error env e s) = Inl (ValueError (''Unexpected error during installation: '' @ str_exn e))"
  by (simp add: unexpected_error_def io_simps error_def emit_def)

lemma cooperative_run:
  assumes c: "cooperative env a lr w script"
    and rp: "run_process env (installer_command env a script) = Inr p"
  shows "triple (\<lambda>_. True) (install_raux env a)
     (\<lambda>r s. r = 0 \<and> returncode p = 0 \<and> RunProcess (installer_command env a script) \<in> set (trace s))
     (\<lambda>e s. returncode p \<noteq> 0 \<and> RunProcess (installer_command env a script) \<in> set (trace s))"
proof -
  let ?cmd = "installer_command env a script"
  let ?Ran = "\<lambda>s. RunProcess ?cmd \<in> set (trace s)"
  let ?Z = "\<lambda>s. raux_zip s = Some (file_bytes env lr)"
  let ?P5 = "\<lambda>c s. c = returncode p \<and> ?Ran s"
  let ?F = "\<lambda>s. returncode p \<noteq> 0 \<and> ?Ran s"
  let ?Q = "\<lambda>r s. r = (0::int) \<and> returncode p = 0 \<and> ?Ran s"
  let ?E = "\<lambda>e s. returncode p \<noteq> 0 \<and> ?Ran s"
  have s1: "triple (\<lambda>_. True) (setup_logging env a) (\<lambda>_ _. True) ?E"
    by (rule triple_total [OF total_setup_logging [OF c] keeps_True])
  have s2: "triple (\<lambda>_. True) (validate_install_dir env a) (\<lambda>_ _. True) ?E"
    by (rule triple_total [OF total_validate_install_dir [OF c] keeps_True])
  have s3: "triple (\<lambda>_. True) (infos env ms) (\<lambda>_ _. True) ?E" for ms
    by (rule triple_total [OF total_infos keeps_True])
  have s4: "triple (\<lambda>_. True) (create_test_file env) (\<lambda>_ _. True) (\<lambda>_. ?F)"
    by (rule triple_total [OF total_create_test_file [OF c] keeps_True])
  have s5: "triple (\<lambda>_. True) (obtain_archive env a) (\<lambda>_. ?Z) (\<lambda>_. ?F)"
    by (rule triple_weaken [OF obtain_archive_total [OF c]]) simp_all
  have s6: "triple ?Z (extract_archive env) (\<lambda>w' s. w' = w) (\<lambda>_. ?F)"
    by (rule triple_weaken [OF extract_archive_total [OF c]]) simp_all
  have s7: "triple (\<lambda>s. w' = w) (copy_env_example env a w') (\<lambda>_ s. w' = w) (\<lambda>_. ?F)" for w'
    by (rule triple_total [OF total_copy_env_example [OF c] keeps_const])
  have s8: "triple (\<lambda>s. w' = w) (list_extracted env (debug a) w') (\<lambda>_ s. w' = w) (\<lambda>_. ?F)" for w'
    by (rule triple_total [OF total_list_extracted keeps_const])
  have s9: "triple (\<lambda>s. w' = w) (locate_install_script env w') (\<lambda>sc s. sc = script) (\<lambda>_. ?F)" for w'
    by (rule triple_assume) (auto intro: triple_weaken [OF locate_install_script_total [OF c]])
  have s10: "triple (\<lambda>s. sc = script) (reinit_logging env lf) (\<lambda>_ s. sc = script) (\<lambda>_. ?F)" for sc lf
    by (rule triple_total [OF total_reinit_logging [OF c] keeps_const])
  have s11: "triple (\<lambda>s. sc = script) (run_install_script env a sc) ?P5 (\<lambda>_. ?F)" for sc
    by (rule triple_assume) (auto intro: triple_weaken [OF run_install_script_result [OF rp]])
  have s12: "triple (?P5 c') (copy_launcher_scripts env a w') (\<lambda>_. ?P5 c') (\<lambda>_. ?F)" for c' w'
    by (rule triple_total [OF total_copy_launcher_scripts [OF c]])
       (intro keeps_conj keeps_const keeps_copy_launcher_scripts [OF seen_step], simp)
  have s13: "triple (?P5 c') (installation_summary env a c' found) ?Q (\<lambda>_. ?F)" for c' found
  proof (rule triple_assume_conj)
    assume "c' = returncode p"
    then show "triple ?Ran (installation_summary env a c' found) ?Q (\<lambda>_. ?F)"
      by (intro triple_weaken [OF triple_conj_keeps [OF installation_summary_result
            [where I = "\<lambda>_. True"] keeps_installation_summary [OF seen_step]]])
         auto
  qed
  have s14: "triple ?F (unexpected_error env e) ?Q ?E" for e
    by (rule triple_always_raises)
       (intro keeps_conj keeps_const keeps_unexpected_error [OF seen_step],
         simp add: unexpected_error_raises)
  show ?thesis
    by (rule install_raux_outline [where Pl = "\<lambda>_. True" and ?P1.0 = "\<lambda>_. True" and ?P2.0 = ?Z
          and ?P3.0 = "\<lambda>w' s. w' = w" and ?P4.0 = "\<lambda>w' sc s. sc = script" and Pr = "\<lambda>w' sc s. sc = script"
          and ?P5.0 = "\<lambda>w'. ?P5" and F = ?F,
          OF s1 s2 s3 s4 s5 s6 s7 s8 s9 s10 s11 s12 s13 s14])
qed

lemma ran_only_append: "ran_only cmd tr \<Longrightarrow> \<not> is_run e \<Longrightarrow> ran_only cmd (tr @ [e])"
  by (simp add: ran_only_def)

lemma ran_with_append: "ran_with env c tr \<Longrightarrow> \<not> is_run e \<Longrightarrow> ran_with env c (tr @ [e])"
  unfolding ran_with_def by (blast intro: ran_only_append)

lemma ran_with_step: "step_invariant env (\<lambda>e. \<not> is_run e) (\<lambda>s. ran_with env' c (trace s))"
  by (rule trace_step_invariant) (rule ran_with_append)

lemma no_run_ran_only: "no_run tr \<Longrightarrow> ran_only cmd (tr @ [RunProcess cmd])"
  by (auto simp: no_run_def ran_only_def list_all_iff)

lemma run_install_script_ran:
  "triple (\<lambda>s. no_run (trace s)) (run_install_script env a script)
     (\<lambda>c s. ran_with env c (trace s)) (\<lambda>_ _. True)"
proof (rule tripleI)
  fix s :: state
  assume n: "no_run (trace s)"
  let ?cmd = "installer_command env a script"
  let ?r = "run_install_script env a script s"
  show "case ?r of (Inl e, s') \<Rightarrow> True | (Inr c, s') \<Rightarrow> ran_with env c (trace s')"
  proof (cases "run_process env ?cmd")
    case (Inl e)
    from run_install_script_Inl [OF Inl, of s] show ?thesis
      by (cases ?r) auto
  next
    case (Inr p)
    from run_install_script_Inr [OF Inr, where T = "ran_only ?cmd" and s = s]
      no_run_ran_only [OF n, of ?cmd] ran_only_append Inr
    show ?thesis
      by (cases ?r) (auto simp: ran_with_def)
  qed
qed

lemma install_raux_result:
  "triple (\<lambda>s. no_run (trace s)) (install_raux env a)
     (\<lambda>r s. r = 0 \<and> ran_with env 0 (trace s))
     (\<lambda>e s. no_run (trace s) \<or> (\<exists>m. e = ValueError m))"
proof -
  let ?N = "\<lambda>s. no_run (trace s)"
  let ?R = "\<lambda>c s. ran_with env c (trace s)"
  let ?Q = "\<lambda>r s. r = (0::int) \<and> ran_with env 0 (trace s)"
  let ?E = "\<lambda>e s. no_run (trace s) \<or> (\<exists>m. e = ValueError m)"
  note r = no_run_step [of env]
  note o = no_run_open [of env]
  note q = ran_with_step [of env env]
  have pre: "triple ?N m (\<lambda>_. ?N) ?E" if "keeps ?N m" for m :: "'x io"
    by (rule triple_weaken [OF triple_keeps [OF that]]) simp_all
  have mid: "triple ?N m (\<lambda>_. ?N) (\<lambda>_ _. True)" if "keeps ?N m" for m :: "'x io"
    by (rule triple_weaken [OF triple_keeps [OF that]]) simp_all
  have post: "triple (?R c) m (\<lambda>_. ?R c) (\<lambda>_ _. True)" if "keeps (?R c) m" for m :: "'x io" and c
    by (rule triple_weaken [OF triple_keeps [OF that]]) simp_all
  have s13: "triple (?R c) (installation_summary env a c found) ?Q (\<lambda>_ _. True)" for c found
    by (rule triple_weaken [OF triple_conj_keeps [OF installation_summary_result
            [where I = "\<lambda>_. True"] keeps_installation_summary [OF q, of c]]])
       auto
  have s14: "triple (\<lambda>_. True) (unexpected_error env e) ?Q ?E" for e
  proof (rule tripleI)
    fix s :: state
    from unexpected_error_raises [of env e s]
    show "case unexpected_error env e s of (Inl e, s') \<Rightarrow> ?E e s' | (Inr r, s') \<Rightarrow> ?Q r s'"
      by (cases "unexpected_error env e s") auto
  qed
  show ?thesis
    by (rule install_raux_outline [where Pl = ?N and ?P1.0 = ?N and ?P2.0 = ?N and ?P3.0 = "\<lambda>_. ?N"
          and ?P4.0 = "\<lambda>_ _. ?N" and Pr = "\<lambda>_ _. ?N" and ?P5.0 = "\<lambda>_. ?R" and F = "\<lambda>_. True",
          OF _ _ _ _ _ _ _ _ _ _ run_install_script_ran _ s13 s14])
       (intro pre mid post step_emit [OF r] keeps_setup_logging [OF r o]
         keeps_validate_install_dir [OF r] keeps_create_test_file [OF r]
         keeps_obtain_archive [OF r] keeps_extract_archive [OF r] keeps_copy_env_example [OF r]
         keeps_list_extracted [OF r] keeps_locate_install_script [OF r]
         keeps_reinit_logging [OF r o] keeps_copy_launcher_scripts [OF q]
         trace_keeps_zip no_run_extract | simp)+
qed

lemma test_walk_script:
  "find_install_script env
     [(''/work/extracted_files'', [''raux''], []), (''/work/extracted_files/raux'', [], [''install.py''])]
   = Some (path_join env ''/work/extracted_files/raux'' ''install.py'')"
  by (simp add: find_install_script_def truthy_def startswith_def)

lemma cooperative_test_env:
  "cooperative test_env example_args ''C:/dl/raux.zip''
     [(''/work/extracted_files'', [''raux''], []), (''/work/extracted_files/raux'', [], [''install.py''])]
     example_script"
  unfolding cooperative_def test_walk_script
  by (simp add: test_env_def example_args_def example_script_def)

lemma cooperative_failing_env:
  "cooperative failing_env example_args ''C:/dl/raux.zip''
     [(''/work/extracted_files'', [''raux''], []), (''/work/extracted_files/raux'', [], [''install.py''])]
     example_script"
  unfolding cooperative_def test_walk_script
  by (simp add: failing_env_def test_env_def example_args_def example_script_def)

lemma example_command_eq:
  "installer_command test_env example_args example_script = example_command"
  "installer_command failing_env example_args example_script = example_command"
  by (simp_all add: installer_command_def failing_env_def test_env_def example_args_def
      example_script_def example_command_def python_dir_def)

lemma failing_run:
  "RunProcess example_command \<in> set (trace (snd (install_raux failing_env example_args s)))
   \<and> (\<exists>e. fst (install_raux failing_env example_args s) = Inl e)"
proof -
  have rp: "run_process failing_env (installer_command failing_env example_args example_script)
              = Inr failed_process"
    by (simp add: failing_env_def)
  have "returncode failed_process \<noteq> 0" by (simp add: failed_process_def)
  with tripleD [OF cooperative_run [OF cooperative_failing_env rp], of s]
  show ?thesis
    by (cases "install_raux failing_env example_args s")
       (auto simp: example_command_eq split: sum.splits)
qed

lemma successful_run:
  "RunProcess example_command \<in> set (trace (snd (install_raux test_env example_args s)))
   \<and> fst (install_raux test_env example_args s) = Inr 0"
proof -
  let ?p = "\<lparr>returncode = 0, stdout = [], stderr = [], log_appended = []\<rparr>"
  have rp: "run_process test_env (installer_command test_env example_args example_script) = Inr ?p"
    by (simp add: test_env_def)
  have "returncode ?p = 0" by simp
  with tripleD [OF cooperative_run [OF cooperative_test_env rp], of s]
  show ?thesis
    by (cases "install_raux test_env example_args s")
       (auto simp: example_command_eq split: sum.splits)
qed

text \<open>
  Claim C1, as amended. The stage returns a value only when the subprocess has run and its
  exit code was 0, and the value is then 0. When the subprocess has run and its exit code was
  not 0, the stage raises \<^verbatim>\<open>ValueError\<close>, and the exit status of the command line is 1
  whatever the exit code was.
\<close>

theorem stage_result_and_exit_code:
  assumes "trace s = []"
  shows "(\<forall>c. fst (install_raux env a s) = Inr c \<longrightarrow>
            c = 0 \<and> (\<exists>cmd p. RunProcess cmd \<in> set (trace (snd (install_raux env a s)))
                         \<and> run_process env cmd = Inr p \<and> returncode p = 0))
       \<and> (\<forall>cmd p. RunProcess cmd \<in> set (trace (snd (install_raux env a s)))
                  \<and> run_process env cmd = Inr p \<and> returncode p \<noteq> 0 \<longrightarrow>
            (\<exists>m. fst (install_raux env a s) = Inl (ValueError m))
            \<and> bootstrap_exit_status env a s = 1)"
proof -
  let ?r = "install_raux env a s"
  have n: "no_run (trace s)" using assms by (simp add: no_run_def)
  note t = tripleD [OF install_raux_result [of env a] n]
  have 1: "c = 0 \<and> (\<exists>cmd p. RunProcess cmd \<in> set (trace (snd ?r))
                         \<and> run_process env cmd = Inr p \<and> returncode p = 0)"
    if "fst ?r = Inr c" for c
    using t that by (cases ?r) (auto simp: ran_with_def ran_only_def)
  have 2: "(\<exists>m. fst ?r = Inl (ValueError m)) \<and> bootstrap_exit_status env a s = 1"
    if h: "RunProcess cmd \<in> set (trace (snd ?r))" "run_process env cmd = Inr p" "returncode p \<noteq> 0"
    for cmd p
  proof (cases "fst ?r")
    case (Inl e)
    with t have "no_run (trace (snd ?r)) \<or> (\<exists>m. e = ValueError m)"
      by (cases ?r) auto
    moreover from h(1) have "\<not> no_run (trace (snd ?r))"
      by (auto simp: no_run_def list_all_iff intro: bexI [where x = "RunProcess cmd"])
    ultimately show ?thesis using Inl by (auto simp: bootstrap_exit_status_def)
  next
    case (Inr c)
    with t have "ran_with env 0 (trace (snd ?r))" by (cases ?r) auto
    then obtain cmd0 p0 where r: "ran_only cmd0 (trace (snd ?r))"
      "run_process env cmd0 = Inr p0" "returncode p0 = 0"
      by (auto simp: ran_with_def)
    from r(1) h(1) have "cmd = cmd0" by (auto simp: ran_only_def list_all_iff)
    with r h show ?thesis by simp
  qed
  from 1 2 show ?thesis by blast
qed

theorem stage_result_and_exit_code_witness:
  "trace fresh = []
   \<and> RunProcess example_command \<in> set (trace (snd (install_raux failing_env example_args fresh)))
   \<and> run_process failing_env example_command = Inr failed_process
   \<and> returncode failed_process \<noteq> 0
   \<and> (\<exists>m. fst (install_raux failing_env example_args fresh) = Inl (ValueError m))
   \<and> bootstrap_exit_status failing_env example_args fresh = 1
   \<and> fst (install_raux test_env example_args fresh) = Inr 0"
proof -
  have h0: "trace fresh = []" by (simp add: fresh_def)
  have h1: "RunProcess example_command \<in> set (trace (snd (install_raux failing_env example_args fresh)))"
    using failing_run [of fresh] by simp
  have h2: "run_process failing_env example_command = Inr failed_process"
    by (simp add: failing_env_def)
  have h3: "returncode failed_process \<noteq> 0" by (simp add: failed_process_def)
  from stage_result_and_exit_code [OF h0, of failing_env example_args] h1 h2 h3
  have "(\<exists>m. fst (install_raux failing_env example_args fresh) = Inl (ValueError m))
        \<and> bootstrap_exit_status failing_env example_args fresh = 1"
    by blast
  with h0 h1 h2 h3 successful_run [of fresh] show ?thesis by blast
qed

theorem exit_code_not_mirrored:
  "RunProcess example_command \<in> set (trace (snd (install_raux failing_env example_args fresh)))
   \<and> run_process failing_env example_command = Inr failed_process
   \<and> returncode failed_process = 2
   \<and> fst (install_raux failing_env example_args fresh) \<noteq> Inr 2
   \<and> bootstrap_exit_status failing_env example_args fresh = 1"
proof -
  from failing_run [of fresh] obtain e
    where e: "fst (install_raux failing_env example_args fresh) = Inl e"
    by blast
  then have "bootstrap_exit_status failing_env example_args fresh = 1"
    by (simp add: bootstrap_exit_status_def)
  moreover have "run_process failing_env example_command = Inr failed_process"
    by (simp add: failing_env_def)
  moreover have "returncode failed_process = 2" by (simp add: failed_process_def)
  ultimately show ?thesis using failing_run [of fresh] e by simp
qed

section \<open>The result of the Provisioning stage\<close>

lemma keeps_wheel_download:
  assumes r: "step_invariant env allowed I" and h: "\<And>u. allowed (HttpGet u)"
  shows "keeps I (download_latest_wheel env lp folder)"
  unfolding download_latest_wheel_def Let_def do_all.simps
  by (intro keeps_intros keeps_raise_for_status step_requests_get [OF r] step_log [OF r] h)

lemma keeps_install_wheel:
  assumes r: "step_invariant env allowed I"
    and "allowed (RunProcess [python_path, ''-m'', ''pip'', ''install'', ''--no-deps'', wheel_path])"
  shows "keeps I (install_wheel env lp wheel_path python_path)"
  unfolding install_wheel_def Let_def do_all.simps
  by (intro keeps_intros step_log [OF r] step_event [OF r] assms)

lemma keeps_run_checked:
  assumes r: "step_invariant env allowed I" and "allowed (RunProcess cmd)"
  shows "keeps I (run_checked env cmd)"
  unfolding run_checked_def
  by (intro keeps_intros step_event [OF r] assms)

lemma keeps_create_shortcuts:
  assumes r: "step_invariant env allowed I" and "\<And>cmd. allowed (RunProcess cmd)"
  shows "keeps I (create_shortcuts env lp dir)"
  unfolding create_shortcuts_def Let_def do_all.simps
  by (intro keeps_intros keeps_run_checked [OF r] step_log [OF r] assms)

lemma keeps_main_try_block:
  assumes r: "step_invariant env allowed I" and h: "\<And>u. allowed (HttpGet u)"
    and p: "\<And>cmd. allowed (RunProcess cmd)"
  shows "keeps I (main_try_block env lp dir)"
  unfolding main_try_block_def Let_def
  by (intro keeps_intros keeps_wheel_download [OF r h] keeps_install_wheel [OF r p]
      keeps_create_shortcuts [OF r p] step_log [OF r])

lemma keeps_main:
  assumes r: "step_invariant env allowed I" and h: "\<And>u. allowed (HttpGet u)"
    and p: "\<And>cmd. allowed (RunProcess cmd)"
  shows "keeps I (main env pa)"
  unfolding main_def Let_def do_all.simps
  by (intro keeps_intros keeps_main_try_block [OF r h p] step_log [OF r])

lemma total_plog: "total (plog env lp msg)"
  by (rule total_steps)

lemma total_download_latest_wheel: "total (download_latest_wheel env lp folder)"
  unfolding download_latest_wheel_def do_all.simps
  by (intro total_seq total_try_handler total_plog total_ret)

lemma total_install_wheel: "total (install_wheel env lp wheel_path python_path)"
  unfolding install_wheel_def do_all.simps
  by (intro total_seq total_try_handler total_plog total_ret)



















section \<open>The log handler is re-created before the subprocess\<close>











section \<open>The properties on example runs\<close>










end
